theory Spec2Isabelle
  imports Main "HOL-Library.AList"
begin

section \<open>The monitor daemon of sway-monitor-manager\<close>

text \<open>
  This theory embeds \<^verbatim>\<open>src/sway_monitor_daemon.py\<close>: the classes
  \<^verbatim>\<open>MonitorProfile\<close> and \<^verbatim>\<open>MonitorDaemon\<close>. Python exceptions are values of
  \<open>py_error\<close>, a function that can raise returns \<open>py_error + 'a\<close> with \<open>Inl\<close> the
  exception. The objects that \<^verbatim>\<open>json.load\<close> hands to the daemon are typed: an output
  description and a stored configuration are records whose fields are optional, so that
  \<^verbatim>\<open>d.get(k, default)\<close> and the \<^verbatim>\<open>KeyError\<close> of \<^verbatim>\<open>d[k]\<close> on an absent key are both
  branches of the model. Calls to \<^verbatim>\<open>logging\<close> are left out: they change nothing the
  daemon reads.
\<close>

subsection \<open>Data\<close>

datatype py_error =
  KeyError | ValueError | JSONDecodeError | UnicodeDecodeError | FileNotFoundError

text \<open>
  A JSON number that the daemon only copies and prints (\<^verbatim>\<open>scale\<close>). It is carried as the
  text \<^verbatim>\<open>str()\<close> gives for it; the daemon does no arithmetic on it.
\<close>

datatype pynum = Num string

fun str_num :: "pynum \<Rightarrow> string" where
  "str_num (Num s) = s"

text \<open>
  One element of the array printed by \<^verbatim>\<open>swaymsg -t get_outputs\<close>. \<open>rect\<close> holds
  \<^verbatim>\<open>rect.x, rect.y\<close> and \<open>current_mode\<close> holds \<^verbatim>\<open>current_mode.width, current_mode.height\<close>;
  \<open>None\<close> is a key that the object does not have.
\<close>

record monitor =
  name :: "string option"
  model :: "string option"
  serial :: "string option"
  rect :: "(int \<times> int) option"
  current_mode :: "(int \<times> int) option"
  scale :: "pynum option"
  transform :: "string option"
  disabled :: "bool option"

text \<open>
  A stored configuration: the dictionary with the keys \<^verbatim>\<open>model, position, resolution,
  scale, transform, enabled\<close>, any of which a profile file may lack, and no other key.
\<close>

record config =
  cfg_model :: "string option"
  position :: "string option"
  resolution :: "string option"
  cfg_scale :: "pynum option"
  cfg_transform :: "string option"
  enabled :: "bool option"

text \<open>The class \<^verbatim>\<open>MonitorProfile\<close>; its \<^verbatim>\<open>file_path\<close> is computed from the name.\<close>

record monitor_profile =
  profile_name :: string
  configs :: "string \<rightharpoonup> config"

text \<open>
  The attributes of \<^verbatim>\<open>MonitorDaemon\<close> that the methods read and write. \<open>profiles\<close>
  is a Python dictionary, which iterates in insertion order: an association list,
  written with \<open>AList.update\<close> and read with \<open>map_of\<close>.
\<close>

record daemon =
  profiles :: "(string \<times> monitor_profile) list"
  active_profile_name :: string
  current_monitors :: "string set"

definition DEFAULT_PROFILE :: string where
  "DEFAULT_PROFILE = ''default''"

definition MonitorProfile :: "string \<Rightarrow> monitor_profile" where
  "MonitorProfile n = \<lparr>profile_name = n, configs = Map.empty\<rparr>"

definition get_str :: "string option \<Rightarrow> string" where
  "get_str v = (case v of None \<Rightarrow> [] | Some s \<Rightarrow> s)"

subsection \<open>Matching: \<^verbatim>\<open>find_best_config\<close>\<close>

text \<open>The list \<^verbatim>\<open>[f"{model}_{serial}", model, name]\<close> of lines 96 and 102.\<close>

definition identifiers :: "monitor \<Rightarrow> string list" where
  "identifiers m =
     [get_str (model m) @ ''_'' @ get_str (serial m), get_str (model m), get_str (name m)]"

text \<open>The inner loop: the first identifier that is a key of \<open>cs\<close> decides.\<close>

fun first_hit :: "(string \<rightharpoonup> config) \<Rightarrow> string list \<Rightarrow> config option" where
  "first_hit cs [] = None"
| "first_hit cs (i # ids) = (case cs i of Some c \<Rightarrow> Some c | None \<Rightarrow> first_hit cs ids)"

text \<open>The outer loop of lines 101 to 104 over \<^verbatim>\<open>self.profiles.values()\<close>.\<close>

fun scan_profiles :: "monitor_profile list \<Rightarrow> string list \<Rightarrow> config option" where
  "scan_profiles [] ids = None"
| "scan_profiles (p # ps) ids =
     (case first_hit (configs p) ids of Some c \<Rightarrow> Some c | None \<Rightarrow> scan_profiles ps ids)"

definition find_best_config :: "daemon \<Rightarrow> monitor \<Rightarrow> py_error + config option" where
  "find_best_config d m =
     (case map_of (profiles d) (active_profile_name d) of
        None \<Rightarrow> Inl KeyError
      | Some active_profile \<Rightarrow>
          (case first_hit (configs active_profile) (identifiers m) of
             Some c \<Rightarrow> Inr (Some c)
           | None \<Rightarrow> Inr (scan_profiles (map snd (profiles d)) (identifiers m))))"

text \<open>
  The matcher as section 4.3 of the specification words it: the three identifiers in
  order within the active profile, then the remaining profiles, each with the same three
  identifiers in order.
\<close>

definition spec_try_identifiers :: "(string \<rightharpoonup> config) \<Rightarrow> monitor \<Rightarrow> config option" where
  "spec_try_identifiers cs m =
     (case cs (get_str (model m) @ ''_'' @ get_str (serial m)) of
        Some c \<Rightarrow> Some c
      | None \<Rightarrow>
          (case cs (get_str (model m)) of
             Some c \<Rightarrow> Some c
           | None \<Rightarrow> cs (get_str (name m))))"

fun spec_first_match :: "monitor_profile list \<Rightarrow> monitor \<Rightarrow> config option" where
  "spec_first_match [] m = None"
| "spec_first_match (p # ps) m =
     (case spec_try_identifiers (configs p) m of
        Some c \<Rightarrow> Some c
      | None \<Rightarrow> spec_first_match ps m)"

definition spec_findBestConfig ::
  "monitor \<Rightarrow> monitor_profile \<Rightarrow> monitor_profile list \<Rightarrow> config option" where
  "spec_findBestConfig m active remaining =
     (case spec_try_identifiers (configs active) m of
        Some c \<Rightarrow> Some c
      | None \<Rightarrow> spec_first_match remaining m)"

text \<open>The profiles other than the active one, in the dictionary's order.\<close>

definition remaining_profiles :: "daemon \<Rightarrow> monitor_profile list" where
  "remaining_profiles d =
     map snd (filter (\<lambda>e. fst e \<noteq> active_profile_name d) (profiles d))"

subsection \<open>Strings\<close>

text \<open>\<^verbatim>\<open>str(i)\<close> for an integer, as the f-strings of lines 171 and 172 print it.\<close>

definition digit_char :: "nat \<Rightarrow> char" where
  "digit_char n = ''0123456789'' ! n"

function str_nat :: "nat \<Rightarrow> string" where
  "str_nat n = (if n < 10 then [digit_char n] else str_nat (n div 10) @ [digit_char (n mod 10)])"
  by pat_completeness auto
termination
  by (relation "measure (\<lambda>n. n)") auto

declare str_nat.simps [simp del]

definition str_int :: "int \<Rightarrow> string" where
  "str_int i = (if i < 0 then CHR ''-'' # str_nat (nat (- i)) else str_nat (nat i))"

text \<open>\<^verbatim>\<open>s.split(c)\<close> for a separator of one character.\<close>

fun py_split :: "char \<Rightarrow> string \<Rightarrow> string list" where
  "py_split c [] = [[]]"
| "py_split c (x # xs) =
     (if x = c then [] # py_split c xs
      else (case py_split c xs of [] \<Rightarrow> [[x]] | p # ps \<Rightarrow> (x # p) # ps))"

text \<open>
  \<^verbatim>\<open>s.strip()\<close>. A character stands for a code point below 256; of these
  \<^verbatim>\<open>str.isspace\<close> holds for the white space of ASCII, the separators \<^verbatim>\<open>\x1c\<close> to
  \<^verbatim>\<open>\x1f\<close>, \<^verbatim>\<open>\x85\<close> and \<^verbatim>\<open>\xa0\<close>.
\<close>

definition py_isspace :: "char \<Rightarrow> bool" where
  "py_isspace c =
     ((of_char c :: nat) \<in> {9, 10, 11, 12, 13, 28, 29, 30, 31, 32, 133, 160})"

definition py_strip :: "string \<Rightarrow> string" where
  "py_strip s = rev (dropWhile py_isspace (rev (dropWhile py_isspace s)))"

text \<open>\<^verbatim>\<open>a, b = xs\<close>: a \<^verbatim>\<open>ValueError\<close> unless \<open>xs\<close> has exactly two elements.\<close>

definition unpack2 :: "string list \<Rightarrow> py_error + (string \<times> string)" where
  "unpack2 xs = (case xs of [a, b] \<Rightarrow> Inr (a, b) | _ \<Rightarrow> Inl ValueError)"

subsection \<open>The profile directory\<close>

text \<open>
  What \<^verbatim>\<open>json.load\<close> makes of a file of the profile directory: it raises
  \<^verbatim>\<open>JSONDecodeError\<close> (\<open>Malformed\<close>; an empty file is one), it raises
  \<^verbatim>\<open>UnicodeDecodeError\<close> because the bytes are not text (\<open>Undecodable\<close>), or it returns
  the mapping from identifiers to configurations. \<^verbatim>\<open>json.dump\<close> and \<^verbatim>\<open>json.load\<close> are
  library code and are taken to be inverse to each other on such mappings, so a written
  file is represented by the mapping written. A file with JSON of another shape is not
  represented.

  The directory \<^verbatim>\<open>PROFILES_PATH\<close> is the list of its files other than the marker, each
  under its name, in the order in which the directory is listed, and the content of the
  marker file \<^verbatim>\<open>active_profile\<close> when it exists. The files are regular files that can
  be opened for reading and for writing.
\<close>

datatype file_content = Malformed | Undecodable | Document "string \<rightharpoonup> config"

text \<open>
  File names. \<^verbatim>\<open>f"{name}.json"\<close> of lines 29 and 40; the pattern \<^verbatim>\<open>*.json\<close> of line 59,
  which \<^verbatim>\<open>Path.glob\<close> also matches against names that begin with a dot; and
  \<^verbatim>\<open>Path.stem\<close> of line 60, which cuts the name at its last dot unless that dot is the
  first or the last character: the stem of \<^verbatim>\<open>.json\<close> is \<^verbatim>\<open>.json\<close>.
\<close>

definition file_name :: "string \<Rightarrow> string" where
  "file_name n = n @ ''.json''"

definition matches_json :: "string \<Rightarrow> bool" where
  "matches_json f = (drop (length f - 5) f = ''.json'')"

definition stem :: "string \<Rightarrow> string" where
  "stem f =
     (let t = takeWhile (\<lambda>c. c \<noteq> CHR ''.'') (rev f)
      in if length t < length f \<and> 0 < length f - length t - 1 \<and> t \<noteq> []
         then take (length f - length t - 1) f
         else f)"


record store =
  profile_files :: "(string \<times> file_content) list"
  active_profile_file :: "string option"

text \<open>
  \<^verbatim>\<open>MonitorProfile.save\<close>. \<^verbatim>\<open>open(self.file_path, 'w')\<close> truncates the file in place, then
  \<^verbatim>\<open>json.dump\<close> writes into it: \<open>save_steps\<close> lists the states of the directory after
  each of the two, and \<open>save\<close> is the state when the method returns.
\<close>

definition save_steps :: "monitor_profile \<Rightarrow> store \<Rightarrow> store list" where
  "save_steps p w =
     [w\<lparr>profile_files :=
          AList.update (file_name (profile_name p)) Malformed (profile_files w)\<rparr>,
      w\<lparr>profile_files :=
          AList.update (file_name (profile_name p)) (Document (configs p)) (profile_files w)\<rparr>]"

definition save :: "monitor_profile \<Rightarrow> store \<Rightarrow> store" where
  "save p w = last (save_steps p w)"

text \<open>
  \<^verbatim>\<open>MonitorProfile.load\<close> opens the file \<^verbatim>\<open>f"{name}.json"\<close>: no such file gives the
  empty profile, a file is parsed.
\<close>

definition load :: "string \<Rightarrow> store \<Rightarrow> py_error + monitor_profile" where
  "load n w =
     (case map_of (profile_files w) (file_name n) of
        None \<Rightarrow> Inr (MonitorProfile n)
      | Some Malformed \<Rightarrow> Inl JSONDecodeError
      | Some Undecodable \<Rightarrow> Inl UnicodeDecodeError
      | Some (Document cs) \<Rightarrow> Inr \<lparr>profile_name = n, configs = cs\<rparr>)"

text \<open>
  The loop of lines 59 to 61: the names that \<^verbatim>\<open>glob('*.json')\<close> yields, the stem of
  each, and \<^verbatim>\<open>MonitorProfile.load\<close> of the stem, which opens the file anew by the name
  it builds from the stem.
\<close>

definition profile_names :: "store \<Rightarrow> string list" where
  "profile_names w = map stem (filter matches_json (map fst (profile_files w)))"

fun load_each ::
  "store \<Rightarrow> string list \<Rightarrow> (string \<times> monitor_profile) list
     \<Rightarrow> py_error + (string \<times> monitor_profile) list" where
  "load_each w [] ps = Inr ps"
| "load_each w (n # ns) ps =
     (case load n w of
        Inl e \<Rightarrow> Inl e
      | Inr p \<Rightarrow> load_each w ns (AList.update n p ps))"

definition load_profiles :: "store \<Rightarrow> daemon \<Rightarrow> py_error + daemon" where
  "load_profiles w d =
     (case load_each w (profile_names w) (profiles d) of
        Inl e \<Rightarrow> Inl e
      | Inr ps \<Rightarrow>
          Inr (d\<lparr>profiles :=
                   (if map_of ps DEFAULT_PROFILE = None
                    then AList.update DEFAULT_PROFILE (MonitorProfile DEFAULT_PROFILE) ps
                    else ps),
                 active_profile_name :=
                   (case active_profile_file w of
                      None \<Rightarrow> active_profile_name d
                    | Some s \<Rightarrow> py_strip s)\<rparr>))"

text \<open>The daemon as \<^verbatim>\<open>__init__\<close> leaves it.\<close>

definition init_daemon :: daemon where
  "init_daemon = \<lparr>profiles = [], active_profile_name = DEFAULT_PROFILE, current_monitors = {}\<rparr>"

definition save_active_profile :: "daemon \<Rightarrow> store \<Rightarrow> store" where
  "save_active_profile d w = w\<lparr>active_profile_file := Some (active_profile_name d)\<rparr>"

subsection \<open>The compositor\<close>

text \<open>
  How a call of \<^verbatim>\<open>swaymsg\<close> through \<^verbatim>\<open>subprocess\<close> ends: the process exits with a status
  and has printed something, or it could not be started (\<^verbatim>\<open>FileNotFoundError\<close>). What
  the query prints either is not JSON or is the array of outputs; JSON of another shape
  is not represented.
\<close>

datatype 'a proc = Exited nat 'a | NotStarted

datatype query_output = Garbled | Outputs "monitor list"

definition get_current_monitors :: "query_output proc \<Rightarrow> py_error + monitor list" where
  "get_current_monitors r =
     (case r of
        NotStarted \<Rightarrow> Inl FileNotFoundError
      | Exited status out \<Rightarrow>
          if status \<noteq> 0 then Inr []
          else (case out of Garbled \<Rightarrow> Inl JSONDecodeError | Outputs ms \<Rightarrow> Inr ms))"

text \<open>The command line that lines 111 to 122 build.\<close>

definition apply_cmd :: "monitor \<Rightarrow> config \<Rightarrow> py_error + string list" where
  "apply_cmd m c =
     (case name m of
        None \<Rightarrow> Inl KeyError
      | Some n \<Rightarrow>
          if (case enabled c of None \<Rightarrow> True | Some b \<Rightarrow> b) then
            (case resolution c of
               None \<Rightarrow> Inl KeyError
             | Some r \<Rightarrow>
            (case unpack2 (py_split CHR ''x'' r) of
               Inl e \<Rightarrow> Inl e
             | Inr (width, height) \<Rightarrow>
            (case position c of
               None \<Rightarrow> Inl KeyError
             | Some p \<Rightarrow>
            (case unpack2 (py_split CHR '','' p) of
               Inl e \<Rightarrow> Inl e
             | Inr (x, y) \<Rightarrow>
            (case cfg_scale c of
               None \<Rightarrow> Inl KeyError
             | Some s \<Rightarrow>
            (case cfg_transform c of
               None \<Rightarrow> Inl KeyError
             | Some t \<Rightarrow>
                 Inr ([''swaymsg'', ''output'', n] @ [''pos'', x, y] @ [''res'', width, height]
                      @ [''scale'', str_num s] @ [''transform'', t])))))))
          else Inr ([''swaymsg'', ''output'', n] @ [''disable'']))"

text \<open>
  \<^verbatim>\<open>apply_monitor_config\<close>; \<open>run\<close> is what \<^verbatim>\<open>subprocess.run(cmd, check=True)\<close> does
  with the command. A status other than 0 is the \<^verbatim>\<open>CalledProcessError\<close> that line 128
  catches.
\<close>

definition apply_monitor_config ::
  "(string list \<Rightarrow> unit proc) \<Rightarrow> monitor \<Rightarrow> config \<Rightarrow> py_error + bool" where
  "apply_monitor_config run m c =
     (case apply_cmd m c of
        Inl e \<Rightarrow> Inl e
      | Inr cmd \<Rightarrow>
          (case run cmd of
             NotStarted \<Rightarrow> Inl FileNotFoundError
           | Exited status u \<Rightarrow> Inr (status = 0)))"

subsection \<open>Reconciliation: \<^verbatim>\<open>update_monitor_configs\<close>\<close>

text \<open>
  What the compositor does during one cycle: the outcome of the query, and the outcome
  of the \<open>k\<close>-th \<^verbatim>\<open>swaymsg output\<close> command of the cycle.
\<close>

record env =
  query :: "query_output proc"
  run :: "nat \<Rightarrow> string list \<Rightarrow> unit proc"

text \<open>The set comprehension \<^verbatim>\<open>{m['name'] for m in monitors}\<close>.\<close>

fun name_set :: "monitor list \<Rightarrow> py_error + string set" where
  "name_set [] = Inr {}"
| "name_set (m # ms) =
     (case name m of
        None \<Rightarrow> Inl KeyError
      | Some n \<Rightarrow> (case name_set ms of Inl e \<Rightarrow> Inl e | Inr s \<Rightarrow> Inr (insert n s)))"

text \<open>\<^verbatim>\<open>if config:\<close> is false for \<^verbatim>\<open>None\<close> and for the dictionary without keys.\<close>

definition truthy :: "config option \<Rightarrow> bool" where
  "truthy v =
     (case v of
        None \<Rightarrow> False
      | Some c \<Rightarrow> \<not> (cfg_model c = None \<and> position c = None \<and> resolution c = None
                    \<and> cfg_scale c = None \<and> cfg_transform c = None \<and> enabled c = None))"

text \<open>
  The loop of lines 144 to 149. The list \<open>calls\<close> is not a variable of the program: it
  records the calls of \<^verbatim>\<open>apply_monitor_config\<close> that returned, each with its output, its
  configuration and its result.
\<close>

type_synonym apply_call = "monitor \<times> config \<times> bool"

fun apply_configurations ::
  "(nat \<Rightarrow> string list \<Rightarrow> unit proc) \<Rightarrow> daemon \<Rightarrow> monitor list \<Rightarrow> apply_call list
     \<Rightarrow> py_error + apply_call list" where
  "apply_configurations rn d [] calls = Inr calls"
| "apply_configurations rn d (m # ms) calls =
     (case find_best_config d m of
        Inl e \<Rightarrow> Inl e
      | Inr v \<Rightarrow>
          if truthy v then
            (case apply_monitor_config (rn (length calls)) m (the v) of
               Inl e \<Rightarrow> Inl e
             | Inr ok \<Rightarrow> apply_configurations rn d ms (calls @ [(m, the v, ok)]))
          else apply_configurations rn d ms calls)"

definition update_monitor_configs :: "env \<Rightarrow> daemon \<Rightarrow> py_error + daemon \<times> apply_call list" where
  "update_monitor_configs e d =
     (case get_current_monitors (query e) of
        Inl x \<Rightarrow> Inl x
      | Inr monitors \<Rightarrow>
          (case name_set monitors of
             Inl x \<Rightarrow> Inl x
           | Inr new_monitor_set \<Rightarrow>
               if new_monitor_set \<noteq> current_monitors d then
                 (case apply_configurations (run e) d monitors [] of
                    Inl x \<Rightarrow> Inl x
                  | Inr calls \<Rightarrow> Inr (d\<lparr>current_monitors := new_monitor_set\<rparr>, calls))
               else Inr (d, [])))"

subsection \<open>Saving: \<^verbatim>\<open>save_current_setup\<close>\<close>

text \<open>The dictionary of lines 169 to 176.\<close>

definition capture :: "monitor \<Rightarrow> string \<Rightarrow> py_error + config" where
  "capture m mdl =
     (case rect m of
        None \<Rightarrow> Inl KeyError
      | Some (x, y) \<Rightarrow>
          (case current_mode m of
             None \<Rightarrow> Inl KeyError
           | Some (width, height) \<Rightarrow>
               Inr \<lparr>cfg_model = Some mdl,
                    position = Some (str_int x @ '','' @ str_int y),
                    resolution = Some (str_int width @ ''x'' @ str_int height),
                    cfg_scale = Some (case scale m of None \<Rightarrow> Num ''1.0'' | Some s \<Rightarrow> s),
                    cfg_transform = Some (case transform m of None \<Rightarrow> ''normal'' | Some t \<Rightarrow> t),
                    enabled = Some (\<not> (case disabled m of None \<Rightarrow> False | Some b \<Rightarrow> b))\<rparr>))"

text \<open>The loop of lines 164 to 181 on the \<^verbatim>\<open>configs\<close> of the profile.\<close>

fun snapshot :: "monitor list \<Rightarrow> (string \<rightharpoonup> config) \<Rightarrow> py_error + (string \<rightharpoonup> config)" where
  "snapshot [] cs = Inr cs"
| "snapshot (m # ms) cs =
     (if get_str (model m) = [] then snapshot ms cs
      else
        (case capture m (get_str (model m)) of
           Inl e \<Rightarrow> Inl e
         | Inr c \<Rightarrow>
             snapshot ms
               (if get_str (serial m) \<noteq> []
                then (cs(get_str (model m) \<mapsto> c))
                       (get_str (model m) @ ''_'' @ get_str (serial m) \<mapsto> c)
                else cs(get_str (model m) \<mapsto> c))))"

text \<open>Lines 155 and 156: an argument that is \<^verbatim>\<open>None\<close> or empty leaves the active name.\<close>

definition set_active :: "string option \<Rightarrow> daemon \<Rightarrow> daemon" where
  "set_active arg d =
     (case arg of
        None \<Rightarrow> d
      | Some n \<Rightarrow> if n \<noteq> [] then d\<lparr>active_profile_name := n\<rparr> else d)"

text \<open>
  Lines 159 to 162: the profile of the active name, a new empty one when the dictionary
  has none.
\<close>

definition profile_to_save :: "daemon \<Rightarrow> monitor_profile" where
  "profile_to_save d =
     (case map_of (profiles d) (active_profile_name d) of
        None \<Rightarrow> MonitorProfile (active_profile_name d)
      | Some p \<Rightarrow> p)"

text \<open>
  \<^verbatim>\<open>save_current_setup\<close> on the daemon and the profile directory. An exception ends the
  run of the model; what the program has changed up to there is not kept.
\<close>

definition save_current_setup ::
  "query_output proc \<Rightarrow> string option \<Rightarrow> daemon \<Rightarrow> store \<Rightarrow> py_error + daemon \<times> store" where
  "save_current_setup q arg d0 w =
     (let d = set_active arg d0 in
      case get_current_monitors q of
        Inl e \<Rightarrow> Inl e
      | Inr monitors \<Rightarrow>
          (let profile = profile_to_save d
           in case snapshot monitors (configs profile) of
                Inl e \<Rightarrow> Inl e
              | Inr cs \<Rightarrow>
                  (let d' = d\<lparr>profiles :=
                               AList.update (active_profile_name d)
                                 (profile\<lparr>configs := cs\<rparr>) (profiles d)\<rparr>
                   in Inr (d', save_active_profile d' (save (profile\<lparr>configs := cs\<rparr>) w)))))"

subsection \<open>Vocabulary of the statements\<close>

text \<open>
  The outputs of a list for which \<^verbatim>\<open>find_best_config\<close> returns a configuration that
  \<^verbatim>\<open>if config:\<close> accepts, each with that configuration, in the order of the list.
\<close>

fun matched :: "daemon \<Rightarrow> monitor list \<Rightarrow> (monitor \<times> config) list" where
  "matched d [] = []"
| "matched d (m # ms) =
     (case find_best_config d m of
        Inr (Some c) \<Rightarrow> (if truthy (Some c) then (m, c) # matched d ms else matched d ms)
      | _ \<Rightarrow> matched d ms)"

text \<open>
  The recorded result of every call is the verdict of its command: \<open>True\<close> for exit
  status 0, \<open>False\<close> for any other status; \<open>k\<close> is the index of the first command.
\<close>

fun results_agree :: "(nat \<Rightarrow> string list \<Rightarrow> unit proc) \<Rightarrow> nat \<Rightarrow> apply_call list \<Rightarrow> bool" where
  "results_agree rn k [] = True"
| "results_agree rn k ((m, c, ok) # calls) =
     ((case apply_cmd m c of
         Inl e \<Rightarrow> False
       | Inr cmd \<Rightarrow> (case rn k cmd of NotStarted \<Rightarrow> False | Exited status u \<Rightarrow> ok = (status = 0)))
      \<and> results_agree rn (Suc k) calls)"

text \<open>The calls of a cycle without their results.\<close>

definition without_results :: "apply_call list \<Rightarrow> (monitor \<times> config) list" where
  "without_results calls = map (\<lambda>(m, c, ok). (m, c)) calls"

text \<open>The compositor that exits with status 0 wherever \<open>rn\<close> exits at all.\<close>

definition succeed_all ::
  "(nat \<Rightarrow> string list \<Rightarrow> unit proc) \<Rightarrow> nat \<Rightarrow> string list \<Rightarrow> unit proc" where
  "succeed_all rn k cmd =
     (case rn k cmd of NotStarted \<Rightarrow> NotStarted | Exited status u \<Rightarrow> Exited 0 u)"

text \<open>
  Every profile of the dictionary carries the name it is stored under. The daemon
  creates profiles in \<^verbatim>\<open>load_profiles\<close> and \<^verbatim>\<open>save_current_setup\<close> only, each under its
  own name.
\<close>

definition named_by_key :: "daemon \<Rightarrow> bool" where
  "named_by_key d = (\<forall>n p. map_of (profiles d) n = Some p \<longrightarrow> profile_name p = n)"

text \<open>
  The files that \<^verbatim>\<open>load_profiles\<close> parses: those whose name matches \<^verbatim>\<open>*.json\<close>, but for
  a file named \<^verbatim>\<open>.json\<close>, in whose place \<^verbatim>\<open>.json.json\<close> is opened. \<open>parses\<close> holds of
  a content that \<^verbatim>\<open>json.load\<close> returns a mapping for.
\<close>

definition parsed_files :: "store \<Rightarrow> (string \<times> file_content) list" where
  "parsed_files w =
     filter (\<lambda>e. matches_json (fst e) \<and> fst e \<noteq> ''.json'') (profile_files w)"

definition parses :: "file_content \<Rightarrow> bool" where
  "parses c = (case c of Document cs \<Rightarrow> True | Malformed \<Rightarrow> False | Undecodable \<Rightarrow> False)"

text \<open>
  The keys of \<^verbatim>\<open>profile.configs\<close> that lines 179 to 181 assign for one output: none when
  the model is empty, the model, and \<^verbatim>\<open>f"{model}_{serial}"\<close> when the serial is not
  empty.
\<close>

definition keys_written :: "monitor \<Rightarrow> string list" where
  "keys_written m =
     (if get_str (model m) = [] then []
      else if get_str (serial m) = [] then [get_str (model m)]
      else [get_str (model m), get_str (model m) @ ''_'' @ get_str (serial m)])"

subsection \<open>Sample outputs, profiles and states\<close>

text \<open>Concrete values at which the theorems below are instantiated.\<close>

definition dell_monitor :: monitor where
  "dell_monitor =
     \<lparr>name = Some ''DP-1'', model = Some ''DELL'', serial = Some ''ABC123'',
      rect = Some (0, 0), current_mode = Some (1920, 1080), scale = Some (Num ''1.0''),
      transform = Some ''normal'', disabled = Some False\<rparr>"

definition lg_monitor :: monitor where
  "lg_monitor =
     \<lparr>name = Some ''DP-2'', model = Some ''LG'', serial = Some ''XYZ'',
      rect = Some (1920, 0), current_mode = Some (2560, 1440), scale = Some (Num ''1.0''),
      transform = Some ''normal'', disabled = Some False\<rparr>"

definition hdmi_monitor :: monitor where
  "hdmi_monitor =
     \<lparr>name = Some ''HDMI-A-1'', model = Some ''ACME'', serial = Some [],
      rect = Some (0, 0), current_mode = Some (1280, 720), scale = None,
      transform = None, disabled = None\<rparr>"

definition full_hd :: config where
  "full_hd =
     \<lparr>cfg_model = Some ''DELL'', position = Some ''0,0'', resolution = Some ''1920x1080'',
      cfg_scale = Some (Num ''1.0''), cfg_transform = Some ''normal'', enabled = Some True\<rparr>"

definition quad_hd :: config where
  "quad_hd =
     \<lparr>cfg_model = Some ''LG'', position = Some ''0,0'', resolution = Some ''2560x1440'',
      cfg_scale = Some (Num ''1.0''), cfg_transform = Some ''normal'', enabled = Some True\<rparr>"

definition switched_off :: config where
  "switched_off =
     \<lparr>cfg_model = Some ''DELL'', position = None, resolution = None,
      cfg_scale = None, cfg_transform = None, enabled = Some False\<rparr>"

definition default_profile :: monitor_profile where
  "default_profile =
     \<lparr>profile_name = ''default'', configs = [''DELL_ABC123'' \<mapsto> full_hd]\<rparr>"

definition office_profile :: monitor_profile where
  "office_profile =
     \<lparr>profile_name = ''office'',
      configs = [''DELL'' \<mapsto> switched_off, ''LG_XYZ'' \<mapsto> quad_hd]\<rparr>"

definition two_profiles :: daemon where
  "two_profiles =
     \<lparr>profiles = [(''default'', default_profile), (''office'', office_profile)],
      active_profile_name = ''default'', current_monitors = {}\<rparr>"

text \<open>
  A cycle that finds the three outputs, in which the first \<^verbatim>\<open>swaymsg output\<close> command
  exits with status 1 and the later ones with status 0.
\<close>

definition first_fails :: env where
  "first_fails =
     \<lparr>query = Exited 0 (Outputs [dell_monitor, hdmi_monitor, lg_monitor]),
      run = (\<lambda>k cmd. if k = 0 then Exited 1 () else Exited 0 ())\<rparr>"

definition all_succeed :: env where
  "all_succeed =
     \<lparr>query = Exited 0 (Outputs [lg_monitor, hdmi_monitor, dell_monitor]),
      run = (\<lambda>k cmd. Exited 0 ())\<rparr>"

text \<open>
  Two profile directories: one with a file that does not parse beside a good one, and
  one whose marker names a profile \<^verbatim>\<open>home\<close> of which there is no file.
\<close>

definition corrupt_store :: store where
  "corrupt_store =
     \<lparr>profile_files =
        [(''office.json'', Document (configs office_profile)), (''broken.json'', Malformed)],
      active_profile_file = None\<rparr>"

definition office_store :: store where
  "office_store =
     \<lparr>profile_files = [(''office.json'', Document (configs office_profile))],
      active_profile_file = Some (''home'' @ [CHR 0x0A])\<rparr>"

text \<open>A directory with a file named \<^verbatim>\<open>.json\<close> that does not parse.\<close>

definition dot_store :: store where
  "dot_store =
     \<lparr>profile_files =
        [(''.json'', Malformed), (''office.json'', Document (configs office_profile))],
      active_profile_file = None\<rparr>"

text \<open>A daemon with a profile \<^verbatim>\<open>home\<close> that holds an older entry for the model DELL.\<close>

definition home_daemon :: daemon where
  "home_daemon =
     \<lparr>profiles = [(''default'', default_profile),
                  (''home'', \<lparr>profile_name = ''home'', configs = [''DELL'' \<mapsto> switched_off]\<rparr>)],
      active_profile_name = ''default'', current_monitors = {}\<rparr>"

section \<open>Properties\<close>

subsection \<open>Matching\<close>

lemma first_hit_identifiers:
  "first_hit cs (identifiers m) = spec_try_identifiers cs m"
  by (simp add: identifiers_def spec_try_identifiers_def split: option.splits)

lemma scan_profiles_spec:
  "scan_profiles ps (identifiers m) = spec_first_match ps m"
  by (induction ps) (simp_all add: first_hit_identifiers split: option.splits)

lemma spec_first_match_skip:
  assumes "\<And>e. e \<in> set es \<Longrightarrow> fst e = a \<Longrightarrow> spec_try_identifiers (configs (snd e)) m = None"
  shows "spec_first_match (map snd es) m =
         spec_first_match (map snd (filter (\<lambda>e. fst e \<noteq> a) es)) m"
  using assms
proof (induction es)
  case Nil
  show ?case by simp
next
  case (Cons e es)
  have rest: "spec_first_match (map snd es) m =
              spec_first_match (map snd (filter (\<lambda>e. fst e \<noteq> a) es)) m"
    using Cons by simp
  show ?case
  proof (cases "fst e = a")
    case True
    then have "spec_try_identifiers (configs (snd e)) m = None"
      using Cons.prems by simp
    with True rest show ?thesis by simp
  next
    case False
    with rest show ?thesis by (simp split: option.splits)
  qed
qed

text \<open>
  C1. When the active profile name is a key of the profile dictionary,
  \<^verbatim>\<open>find_best_config\<close> returns what the specified matcher returns: the first hit among
  \<^verbatim>\<open>"{model}_{serial}"\<close>, \<^verbatim>\<open>model\<close>, \<^verbatim>\<open>name\<close> in the active profile, and only when
  none of them is a key there the first hit in the other profiles. In particular an
  output with model DELL and serial ABC123 gets the active profile's entry under
  \<^verbatim>\<open>DELL_ABC123\<close>, whatever the other profiles hold.
\<close>

theorem find_best_config_precedence:
  assumes "distinct (map fst (profiles d))"
    and "map_of (profiles d) (active_profile_name d) = Some ap"
  shows "find_best_config d m = Inr (spec_findBestConfig m ap (remaining_profiles d))
       \<and> (model m = Some ''DELL'' \<and> serial m = Some ''ABC123''
            \<and> configs ap ''DELL_ABC123'' = Some c
          \<longrightarrow> find_best_config d m = Inr (Some c))"
proof -
  have same: "\<And>e. e \<in> set (profiles d) \<Longrightarrow> fst e = active_profile_name d \<Longrightarrow> snd e = ap"
  proof -
    fix e
    assume "e \<in> set (profiles d)" and "fst e = active_profile_name d"
    then have "(active_profile_name d, snd e) \<in> set (profiles d)"
      by (metis prod.collapse)
    then have "map_of (profiles d) (active_profile_name d) = Some (snd e)"
      using assms(1) by simp
    with assms(2) show "snd e = ap" by simp
  qed
  have general: "find_best_config d m = Inr (spec_findBestConfig m ap (remaining_profiles d))"
  proof (cases "spec_try_identifiers (configs ap) m")
    case (Some c')
    then show ?thesis
      by (simp add: find_best_config_def assms(2) first_hit_identifiers
          spec_findBestConfig_def)
  next
    case None
    have "spec_first_match (map snd (profiles d)) m =
          spec_first_match (remaining_profiles d) m"
      unfolding remaining_profiles_def
      by (rule spec_first_match_skip) (simp add: same None)
    with None show ?thesis
      by (simp add: find_best_config_def assms(2) first_hit_identifiers
          scan_profiles_spec spec_findBestConfig_def)
  qed
  have particular: "model m = Some ''DELL'' \<and> serial m = Some ''ABC123''
            \<and> configs ap ''DELL_ABC123'' = Some c
          \<longrightarrow> find_best_config d m = Inr (Some c)"
    by (simp add: find_best_config_def assms(2) identifiers_def get_str_def)
  from general particular show ?thesis by simp
qed

text \<open>
  In \<open>two_profiles\<close> the active profile holds \<^verbatim>\<open>DELL_ABC123\<close> and the profile
  \<^verbatim>\<open>office\<close> holds \<^verbatim>\<open>DELL\<close>: the output gets the entry of the active profile.
\<close>

theorem find_best_config_precedence_witness:
  "distinct (map fst (profiles two_profiles))
   \<and> map_of (profiles two_profiles) (active_profile_name two_profiles) = Some default_profile
   \<and> model dell_monitor = Some ''DELL'' \<and> serial dell_monitor = Some ''ABC123''
   \<and> configs default_profile ''DELL_ABC123'' = Some full_hd
   \<and> configs office_profile ''DELL'' = Some switched_off
   \<and> find_best_config two_profiles dell_monitor = Inr (Some full_hd)"
proof -
  have h1: "distinct (map fst (profiles two_profiles))"
    by (simp add: two_profiles_def)
  have h2: "map_of (profiles two_profiles) (active_profile_name two_profiles)
            = Some default_profile"
    by (simp add: two_profiles_def)
  have facts: "model dell_monitor = Some ''DELL'' \<and> serial dell_monitor = Some ''ABC123''
     \<and> configs default_profile ''DELL_ABC123'' = Some full_hd
     \<and> configs office_profile ''DELL'' = Some switched_off"
    by (simp add: dell_monitor_def default_profile_def office_profile_def)
  from find_best_config_precedence [OF h1 h2, of dell_monitor full_hd] facts
  have "find_best_config two_profiles dell_monitor = Inr (Some full_hd)"
    by blast
  with h1 h2 facts show ?thesis by blast
qed

subsection \<open>Reconciliation\<close>

lemma update_unchanged:
  assumes "get_current_monitors (query e) = Inr ms"
    and "name_set ms = Inr (current_monitors d)"
  shows "update_monitor_configs e d = Inr (d, [])"
  using assms by (simp add: update_monitor_configs_def)

lemma update_result:
  assumes "update_monitor_configs e d = Inr (d', calls)"
    and "get_current_monitors (query e) = Inr ms"
  shows "name_set ms = Inr (current_monitors d')"
    and "d' = d\<lparr>current_monitors := current_monitors d'\<rparr>"
  using assms
  by (auto simp: update_monitor_configs_def split: sum.splits if_splits)

text \<open>
  C2. When the names of the outputs that the query returns are the stored set
  \<^verbatim>\<open>current_monitors\<close>, the cycle calls \<^verbatim>\<open>apply_monitor_config\<close> not once and returns
  the daemon as it was. Hence a cycle that follows a finished cycle and finds the same
  set of names applies nothing.
\<close>

theorem update_monitor_configs_idempotent:
  "(get_current_monitors (query e) = Inr ms \<and> name_set ms = Inr (current_monitors d)
      \<longrightarrow> update_monitor_configs e d = Inr (d, []))
   \<and> (update_monitor_configs e1 d1 = Inr (d2, calls)
        \<and> get_current_monitors (query e1) = Inr ms1
        \<and> get_current_monitors (query e2) = Inr ms2
        \<and> name_set ms2 = name_set ms1
      \<longrightarrow> update_monitor_configs e2 d2 = Inr (d2, []))"
proof (intro conjI impI)
  assume "get_current_monitors (query e) = Inr ms \<and> name_set ms = Inr (current_monitors d)"
  then show "update_monitor_configs e d = Inr (d, [])"
    by (simp add: update_unchanged)
next
  assume a: "update_monitor_configs e1 d1 = Inr (d2, calls)
        \<and> get_current_monitors (query e1) = Inr ms1
        \<and> get_current_monitors (query e2) = Inr ms2
        \<and> name_set ms2 = name_set ms1"
  then have "name_set ms1 = Inr (current_monitors d2)"
    using update_result(1) by blast
  with a show "update_monitor_configs e2 d2 = Inr (d2, [])"
    by (simp add: update_unchanged)
qed

text \<open>The cycle \<open>first_fails\<close> on \<open>two_profiles\<close>, evaluated.\<close>

lemmas sample_defs =
  two_profiles_def default_profile_def office_profile_def dell_monitor_def lg_monitor_def
  hdmi_monitor_def full_hd_def quad_hd_def switched_off_def

lemmas cycle_defs =
  update_monitor_configs_def get_current_monitors_def find_best_config_def identifiers_def
  get_str_def truthy_def apply_monitor_config_def apply_cmd_def unpack2_def

lemma first_fails_monitors:
  "get_current_monitors (query first_fails) = Inr [dell_monitor, hdmi_monitor, lg_monitor]"
  by (simp add: first_fails_def get_current_monitors_def)

lemma all_succeed_monitors:
  "get_current_monitors (query all_succeed) = Inr [lg_monitor, hdmi_monitor, dell_monitor]"
  by (simp add: all_succeed_def get_current_monitors_def)

lemma sample_names:
  "name_set [dell_monitor, hdmi_monitor, lg_monitor] = Inr {''DP-1'', ''HDMI-A-1'', ''DP-2''}"
  "name_set [lg_monitor, hdmi_monitor, dell_monitor] = Inr {''DP-1'', ''HDMI-A-1'', ''DP-2''}"
  by (auto simp: sample_defs)

lemma first_fails_cycle:
  "update_monitor_configs first_fails two_profiles =
     Inr (two_profiles\<lparr>current_monitors := {''DP-1'', ''HDMI-A-1'', ''DP-2''}\<rparr>,
          [(dell_monitor, full_hd, False), (lg_monitor, quad_hd, True)])"
  by (simp add: cycle_defs first_fails_def sample_defs)

theorem update_monitor_configs_idempotent_witness:
  "get_current_monitors (query first_fails) = Inr [dell_monitor, hdmi_monitor, lg_monitor]
   \<and> name_set [dell_monitor, hdmi_monitor, lg_monitor]
       = Inr (current_monitors (two_profiles\<lparr>current_monitors := {''DP-1'', ''HDMI-A-1'', ''DP-2''}\<rparr>))
   \<and> update_monitor_configs first_fails
        (two_profiles\<lparr>current_monitors := {''DP-1'', ''HDMI-A-1'', ''DP-2''}\<rparr>)
       = Inr (two_profiles\<lparr>current_monitors := {''DP-1'', ''HDMI-A-1'', ''DP-2''}\<rparr>, [])
   \<and> update_monitor_configs first_fails two_profiles
       = Inr (two_profiles\<lparr>current_monitors := {''DP-1'', ''HDMI-A-1'', ''DP-2''}\<rparr>,
              [(dell_monitor, full_hd, False), (lg_monitor, quad_hd, True)])
   \<and> get_current_monitors (query all_succeed) = Inr [lg_monitor, hdmi_monitor, dell_monitor]
   \<and> name_set [lg_monitor, hdmi_monitor, dell_monitor]
       = name_set [dell_monitor, hdmi_monitor, lg_monitor]
   \<and> update_monitor_configs all_succeed
        (two_profiles\<lparr>current_monitors := {''DP-1'', ''HDMI-A-1'', ''DP-2''}\<rparr>)
       = Inr (two_profiles\<lparr>current_monitors := {''DP-1'', ''HDMI-A-1'', ''DP-2''}\<rparr>, [])"
proof -
  let ?d = "two_profiles\<lparr>current_monitors := {''DP-1'', ''HDMI-A-1'', ''DP-2''}\<rparr>"
  have n: "name_set [dell_monitor, hdmi_monitor, lg_monitor] = Inr (current_monitors ?d)"
    unfolding sample_names by simp
  have same: "name_set [lg_monitor, hdmi_monitor, dell_monitor]
              = name_set [dell_monitor, hdmi_monitor, lg_monitor]"
    by (simp only: sample_names)
  from update_monitor_configs_idempotent
         [of first_fails "[dell_monitor, hdmi_monitor, lg_monitor]" ?d
             first_fails two_profiles ?d
             "[(dell_monitor, full_hd, False), (lg_monitor, quad_hd, True)]"
             "[dell_monitor, hdmi_monitor, lg_monitor]" all_succeed
             "[lg_monitor, hdmi_monitor, dell_monitor]"]
  have "update_monitor_configs first_fails ?d = Inr (?d, [])
      \<and> update_monitor_configs all_succeed ?d = Inr (?d, [])"
    using first_fails_monitors all_succeed_monitors n same first_fails_cycle by blast
  then show ?thesis
    using first_fails_monitors all_succeed_monitors n same first_fails_cycle by blast
qed

lemma find_best_config_returns:
  assumes "map_of (profiles d) (active_profile_name d) = Some ap"
  shows "\<exists>v. find_best_config d m = Inr v"
  by (cases "first_hit (configs ap) (identifiers m)")
     (simp_all add: find_best_config_def assms)

lemma apply_configurations_total:
  assumes act: "map_of (profiles d) (active_profile_name d) = Some ap"
    and started: "\<forall>k cmd. rn k cmd \<noteq> NotStarted"
    and wf: "\<forall>mc \<in> set (matched d ms). \<exists>cmd. apply_cmd (fst mc) (snd mc) = Inr cmd"
  shows "\<exists>new. apply_configurations rn d ms calls = Inr (calls @ new)
            \<and> without_results new = matched d ms
            \<and> results_agree rn (length calls) new"
  using wf
proof (induction ms arbitrary: calls)
  case Nil
  show ?case by (simp add: without_results_def)
next
  case (Cons m ms)
  obtain v where v: "find_best_config d m = Inr v"
    using find_best_config_returns [OF act] by blast
  show ?case
  proof (cases "truthy v")
    case False
    then have "matched d (m # ms) = matched d ms"
      using v by (auto split: option.splits)
    with Cons False v show ?thesis by simp
  next
    case True
    then obtain c where c: "v = Some c"
      by (cases v) (auto simp: truthy_def)
    have mt: "matched d (m # ms) = (m, c) # matched d ms"
      using v c True by simp
    then obtain cmd where cmd: "apply_cmd m c = Inr cmd"
      using Cons.prems by auto
    obtain status where status: "rn (length calls) cmd = Exited status ()"
      using started by (cases "rn (length calls) cmd") auto
    have one: "apply_monitor_config (rn (length calls)) m c = Inr (status = 0)"
      by (simp add: apply_monitor_config_def cmd status)
    have "\<forall>mc \<in> set (matched d ms). \<exists>cmd. apply_cmd (fst mc) (snd mc) = Inr cmd"
      using Cons.prems mt by simp
    from Cons.IH [OF this, of "calls @ [(m, c, status = 0)]"]
    obtain new where new: "apply_configurations rn d ms (calls @ [(m, c, status = 0)])
              = Inr ((calls @ [(m, c, status = 0)]) @ new)"
      "without_results new = matched d ms"
      "results_agree rn (length (calls @ [(m, c, status = 0)])) new"
      by blast
    have "apply_configurations rn d (m # ms) calls = Inr (calls @ (m, c, status = 0) # new)"
      using v c True one new(1) by simp
    moreover have "without_results ((m, c, status = 0) # new) = matched d (m # ms)"
      using new(2) mt by (simp add: without_results_def)
    moreover have "results_agree rn (length calls) ((m, c, status = 0) # new)"
      using new(3) cmd status by simp
    ultimately show ?thesis by blast
  qed
qed

lemma exit_status_irrelevant:
  assumes "without_results calls = without_results calls'"
  shows "map_sum id without_results (apply_configurations rn d ms calls)
       = map_sum id without_results (apply_configurations (succeed_all rn) d ms calls')"
  using assms
proof (induction ms arbitrary: calls calls')
  case Nil
  then show ?case by simp
next
  case (Cons m ms)
  have len: "length calls = length calls'"
    using Cons.prems by (metis length_map without_results_def)
  show ?case
  proof (cases "find_best_config d m")
    case (Inl e)
    then show ?thesis by simp
  next
    case (Inr v)
    show ?thesis
    proof (cases "truthy v")
      case False
      with Inr Cons show ?thesis by simp
    next
      case True
      show ?thesis
      proof (cases "apply_cmd m (the v)")
        case (Inl e)
        with Inr True show ?thesis by (simp add: apply_monitor_config_def)
      next
        case cmd: (Inr cmd)
        show ?thesis
        proof (cases "rn (length calls) cmd")
          case NotStarted
          with Inr True cmd len show ?thesis
            by (simp add: apply_monitor_config_def succeed_all_def)
        next
          case (Exited status u)
          have "without_results (calls @ [(m, the v, status = 0)])
                = without_results (calls' @ [(m, the v, True)])"
            using Cons.prems by (simp add: without_results_def)
          from Cons.IH [OF this] Inr True cmd len Exited show ?thesis
            by (simp add: apply_monitor_config_def succeed_all_def)
        qed
      qed
    qed
  qed
qed

lemma cycle_exit_status_irrelevant:
  "map_sum id (\<lambda>(d', calls). (d', without_results calls)) (update_monitor_configs e d)
   = map_sum id (\<lambda>(d', calls). (d', without_results calls))
       (update_monitor_configs (e\<lparr>run := succeed_all (run e)\<rparr>) d)"
proof (cases "get_current_monitors (query e)")
  case (Inl x)
  then show ?thesis by (simp add: update_monitor_configs_def)
next
  case (Inr ms)
  show ?thesis
  proof (cases "name_set ms")
    case (Inl x)
    with Inr show ?thesis by (simp add: update_monitor_configs_def)
  next
    case names: (Inr s)
    have eq: "map_sum id without_results (apply_configurations (run e) d ms [])
            = map_sum id without_results (apply_configurations (succeed_all (run e)) d ms [])"
      by (rule exit_status_irrelevant) simp
    show ?thesis
    proof (cases "s = current_monitors d")
      case True
      with Inr names show ?thesis by (simp add: update_monitor_configs_def)
    next
      case False
      with Inr names eq show ?thesis
        by (cases "apply_configurations (run e) d ms []";
            cases "apply_configurations (succeed_all (run e)) d ms []")
           (simp_all add: update_monitor_configs_def)
    qed
  qed
qed

text \<open>
  C5. A \<^verbatim>\<open>swaymsg output\<close> command that exits with a status other than 0 makes
  \<^verbatim>\<open>apply_monitor_config\<close> return \<open>False\<close>, and it does not end the cycle: any cycle
  returns or raises, leaves the daemon and calls \<^verbatim>\<open>apply_monitor_config\<close> exactly as
  the cycle in which the same commands exit with status 0. In a cycle that finds a
  changed set of names, with the active profile loaded, every matched configuration
  complete enough to build its command, and \<^verbatim>\<open>swaymsg\<close> startable, the cycle returns,
  \<^verbatim>\<open>apply_monitor_config\<close> has been called for exactly the outputs with a matching
  configuration, in order, and each call has returned \<open>False\<close> or \<open>True\<close> as its own
  command failed or not.
\<close>

theorem apply_failure_does_not_abort:
  "(apply_cmd m c = Inr cmd \<and> rn cmd = Exited status () \<and> status \<noteq> 0
      \<longrightarrow> apply_monitor_config rn m c = Inr False)
   \<and> map_sum id (\<lambda>(d', calls). (d', without_results calls)) (update_monitor_configs e d)
       = map_sum id (\<lambda>(d', calls). (d', without_results calls))
           (update_monitor_configs (e\<lparr>run := succeed_all (run e)\<rparr>) d)
   \<and> (get_current_monitors (query e) = Inr ms \<and> name_set ms = Inr s
        \<and> s \<noteq> current_monitors d
        \<and> map_of (profiles d) (active_profile_name d) = Some ap
        \<and> (\<forall>mc \<in> set (matched d ms). \<exists>cmd. apply_cmd (fst mc) (snd mc) = Inr cmd)
        \<and> (\<forall>k cmd. run e k cmd \<noteq> NotStarted)
      \<longrightarrow> (\<exists>calls. update_monitor_configs e d = Inr (d\<lparr>current_monitors := s\<rparr>, calls)
             \<and> without_results calls = matched d ms
             \<and> results_agree (run e) 0 calls))"
proof (intro conjI impI)
  assume "apply_cmd m c = Inr cmd \<and> rn cmd = Exited status () \<and> status \<noteq> 0"
  then show "apply_monitor_config rn m c = Inr False"
    by (simp add: apply_monitor_config_def)
next
  show "map_sum id (\<lambda>(d', calls). (d', without_results calls)) (update_monitor_configs e d)
       = map_sum id (\<lambda>(d', calls). (d', without_results calls))
           (update_monitor_configs (e\<lparr>run := succeed_all (run e)\<rparr>) d)"
    by (rule cycle_exit_status_irrelevant)
next
  assume a: "get_current_monitors (query e) = Inr ms \<and> name_set ms = Inr s
        \<and> s \<noteq> current_monitors d
        \<and> map_of (profiles d) (active_profile_name d) = Some ap
        \<and> (\<forall>mc \<in> set (matched d ms). \<exists>cmd. apply_cmd (fst mc) (snd mc) = Inr cmd)
        \<and> (\<forall>k cmd. run e k cmd \<noteq> NotStarted)"
  then have act: "map_of (profiles d) (active_profile_name d) = Some ap"
    and started: "\<forall>k cmd. run e k cmd \<noteq> NotStarted"
    and wf: "\<forall>mc \<in> set (matched d ms). \<exists>cmd. apply_cmd (fst mc) (snd mc) = Inr cmd"
    by simp_all
  from apply_configurations_total [OF act started wf, of "[]"]
  obtain calls where calls: "apply_configurations (run e) d ms [] = Inr calls"
      "without_results calls = matched d ms"
      "results_agree (run e) 0 calls"
    by auto
  have "update_monitor_configs e d = Inr (d\<lparr>current_monitors := s\<rparr>, calls)"
    using a calls(1) by (simp add: update_monitor_configs_def)
  with calls(2,3)
  show "\<exists>calls. update_monitor_configs e d = Inr (d\<lparr>current_monitors := s\<rparr>, calls)
             \<and> without_results calls = matched d ms
             \<and> results_agree (run e) 0 calls"
    by blast
qed

text \<open>
  In the cycle \<open>first_fails\<close> the command for the first output exits with status 1;
  the third output is configured all the same, and the second matches nothing.
\<close>

theorem apply_failure_does_not_abort_witness:
  "get_current_monitors (query first_fails) = Inr [dell_monitor, hdmi_monitor, lg_monitor]
   \<and> name_set [dell_monitor, hdmi_monitor, lg_monitor] = Inr {''DP-1'', ''HDMI-A-1'', ''DP-2''}
   \<and> {''DP-1'', ''HDMI-A-1'', ''DP-2''} \<noteq> current_monitors two_profiles
   \<and> map_of (profiles two_profiles) (active_profile_name two_profiles) = Some default_profile
   \<and> matched two_profiles [dell_monitor, hdmi_monitor, lg_monitor]
       = [(dell_monitor, full_hd), (lg_monitor, quad_hd)]
   \<and> apply_cmd dell_monitor full_hd
       = Inr [''swaymsg'', ''output'', ''DP-1'', ''pos'', ''0'', ''0'', ''res'',
              ''1920'', ''1080'', ''scale'', ''1.0'', ''transform'', ''normal'']
   \<and> apply_cmd lg_monitor quad_hd
       = Inr [''swaymsg'', ''output'', ''DP-2'', ''pos'', ''0'', ''0'', ''res'',
              ''2560'', ''1440'', ''scale'', ''1.0'', ''transform'', ''normal'']
   \<and> (\<forall>k cmd. run first_fails k cmd \<noteq> NotStarted)
   \<and> run first_fails 0 [''swaymsg'', ''output'', ''DP-1'', ''pos'', ''0'', ''0'', ''res'',
        ''1920'', ''1080'', ''scale'', ''1.0'', ''transform'', ''normal''] = Exited 1 ()
   \<and> (1::nat) \<noteq> 0
   \<and> apply_monitor_config (run first_fails 0) dell_monitor full_hd = Inr False
   \<and> (\<exists>calls. update_monitor_configs first_fails two_profiles
         = Inr (two_profiles\<lparr>current_monitors := {''DP-1'', ''HDMI-A-1'', ''DP-2''}\<rparr>, calls)
        \<and> without_results calls = [(dell_monitor, full_hd), (lg_monitor, quad_hd)]
        \<and> results_agree (run first_fails) 0 calls)"
proof -
  have h3: "{''DP-1'', ''HDMI-A-1'', ''DP-2''} \<noteq> current_monitors two_profiles"
    by (simp add: two_profiles_def)
  have h4: "map_of (profiles two_profiles) (active_profile_name two_profiles)
            = Some default_profile"
    by (simp add: two_profiles_def)
  have mt: "matched two_profiles [dell_monitor, hdmi_monitor, lg_monitor]
            = [(dell_monitor, full_hd), (lg_monitor, quad_hd)]"
    by (simp add: cycle_defs sample_defs)
  have cmds: "apply_cmd dell_monitor full_hd
       = Inr [''swaymsg'', ''output'', ''DP-1'', ''pos'', ''0'', ''0'', ''res'',
              ''1920'', ''1080'', ''scale'', ''1.0'', ''transform'', ''normal'']"
    "apply_cmd lg_monitor quad_hd
       = Inr [''swaymsg'', ''output'', ''DP-2'', ''pos'', ''0'', ''0'', ''res'',
              ''2560'', ''1440'', ''scale'', ''1.0'', ''transform'', ''normal'']"
    by (simp_all add: apply_cmd_def unpack2_def sample_defs)
  have h5: "\<forall>mc \<in> set (matched two_profiles [dell_monitor, hdmi_monitor, lg_monitor]).
              \<exists>cmd. apply_cmd (fst mc) (snd mc) = Inr cmd"
    unfolding mt by (simp add: cmds)
  have h6: "\<forall>k cmd. run first_fails k cmd \<noteq> NotStarted"
    by (simp add: first_fails_def)
  have fails: "run first_fails 0 [''swaymsg'', ''output'', ''DP-1'', ''pos'', ''0'', ''0'',
        ''res'', ''1920'', ''1080'', ''scale'', ''1.0'', ''transform'', ''normal''] = Exited 1 ()"
    by (simp add: first_fails_def)
  note inst = apply_failure_does_not_abort
    [where m = dell_monitor and c = full_hd and rn = "run first_fails 0" and status = 1
       and cmd = "[''swaymsg'', ''output'', ''DP-1'', ''pos'', ''0'', ''0'', ''res'',
                   ''1920'', ''1080'', ''scale'', ''1.0'', ''transform'', ''normal'']"
       and e = first_fails and d = two_profiles
       and ms = "[dell_monitor, hdmi_monitor, lg_monitor]"
       and s = "{''DP-1'', ''HDMI-A-1'', ''DP-2''}" and ap = default_profile]
  have one: "apply_monitor_config (run first_fails 0) dell_monitor full_hd = Inr False"
    using inst cmds(1) fails by simp
  have "\<exists>calls. update_monitor_configs first_fails two_profiles
         = Inr (two_profiles\<lparr>current_monitors := {''DP-1'', ''HDMI-A-1'', ''DP-2''}\<rparr>, calls)
        \<and> without_results calls = matched two_profiles [dell_monitor, hdmi_monitor, lg_monitor]
        \<and> results_agree (run first_fails) 0 calls"
    using inst first_fails_monitors sample_names(1) h3 h4 h5 h6 by blast
  then have "\<exists>calls. update_monitor_configs first_fails two_profiles
         = Inr (two_profiles\<lparr>current_monitors := {''DP-1'', ''HDMI-A-1'', ''DP-2''}\<rparr>, calls)
        \<and> without_results calls = [(dell_monitor, full_hd), (lg_monitor, quad_hd)]
        \<and> results_agree (run first_fails) 0 calls"
    unfolding mt .
  with first_fails_monitors sample_names(1) h3 h4 mt cmds h6 fails one show ?thesis
    by simp
qed

text \<open>
  C10. A cycle that finds a set of names other than the stored one and returns has
  stored the new set and changed nothing else of the daemon, whatever its calls of
  \<^verbatim>\<open>apply_monitor_config\<close> returned and however many outputs matched nothing; a later
  cycle that finds the same set of names then applies nothing.
\<close>

theorem stored_set_replaced:
  assumes "get_current_monitors (query e) = Inr ms"
    and "name_set ms = Inr s"
    and "s \<noteq> current_monitors d"
    and "update_monitor_configs e d = Inr (d', calls)"
  shows "d' = d\<lparr>current_monitors := s\<rparr>
       \<and> (get_current_monitors (query e') = Inr ms' \<and> name_set ms' = Inr s
            \<longrightarrow> update_monitor_configs e' d' = Inr (d', []))"
proof -
  have s: "current_monitors d' = s"
    using update_result(1) [OF assms(4) assms(1)] assms(2) by simp
  have "d' = d\<lparr>current_monitors := s\<rparr>"
    using update_result(2) [OF assms(4) assms(1)] s by simp
  moreover have "get_current_monitors (query e') = Inr ms' \<and> name_set ms' = Inr s
            \<longrightarrow> update_monitor_configs e' d' = Inr (d', [])"
    using s by (simp add: update_unchanged)
  ultimately show ?thesis by simp
qed

text \<open>
  The cycle \<open>first_fails\<close>: one call fails, one output matches nothing, the set is
  stored, and the next cycle on the same outputs applies nothing.
\<close>

theorem stored_set_replaced_witness:
  "get_current_monitors (query first_fails) = Inr [dell_monitor, hdmi_monitor, lg_monitor]
   \<and> name_set [dell_monitor, hdmi_monitor, lg_monitor] = Inr {''DP-1'', ''HDMI-A-1'', ''DP-2''}
   \<and> {''DP-1'', ''HDMI-A-1'', ''DP-2''} \<noteq> current_monitors two_profiles
   \<and> update_monitor_configs first_fails two_profiles
       = Inr (two_profiles\<lparr>current_monitors := {''DP-1'', ''HDMI-A-1'', ''DP-2''}\<rparr>,
              [(dell_monitor, full_hd, False), (lg_monitor, quad_hd, True)])
   \<and> find_best_config two_profiles hdmi_monitor = Inr None
   \<and> get_current_monitors (query all_succeed) = Inr [lg_monitor, hdmi_monitor, dell_monitor]
   \<and> name_set [lg_monitor, hdmi_monitor, dell_monitor] = Inr {''DP-1'', ''HDMI-A-1'', ''DP-2''}
   \<and> update_monitor_configs all_succeed
        (two_profiles\<lparr>current_monitors := {''DP-1'', ''HDMI-A-1'', ''DP-2''}\<rparr>)
       = Inr (two_profiles\<lparr>current_monitors := {''DP-1'', ''HDMI-A-1'', ''DP-2''}\<rparr>, [])"
proof -
  have h3: "{''DP-1'', ''HDMI-A-1'', ''DP-2''} \<noteq> current_monitors two_profiles"
    by (simp add: two_profiles_def)
  have unmatched: "find_best_config two_profiles hdmi_monitor = Inr None"
    by (simp add: cycle_defs sample_defs)
  from stored_set_replaced
         [OF first_fails_monitors sample_names(1) h3 first_fails_cycle,
          of all_succeed "[lg_monitor, hdmi_monitor, dell_monitor]"]
  have "update_monitor_configs all_succeed
          (two_profiles\<lparr>current_monitors := {''DP-1'', ''HDMI-A-1'', ''DP-2''}\<rparr>)
        = Inr (two_profiles\<lparr>current_monitors := {''DP-1'', ''HDMI-A-1'', ''DP-2''}\<rparr>, [])"
    using all_succeed_monitors sample_names(2) by blast
  with first_fails_monitors sample_names h3 first_fails_cycle unmatched
    all_succeed_monitors show ?thesis
    by blast
qed

subsection \<open>Loading the profiles\<close>

lemma matches_json_iff: "matches_json f \<longleftrightarrow> (\<exists>x. f = x @ ''.json'')"
proof
  assume "matches_json f"
  then have "take (length f - 5) f @ ''.json'' = f"
    unfolding matches_json_def by (metis append_take_drop_id)
  then show "\<exists>x. f = x @ ''.json''" by metis
next
  assume "\<exists>x. f = x @ ''.json''"
  then obtain x where "f = x @ ''.json''" ..
  then show "matches_json f" by (simp add: matches_json_def)
qed

lemma stem_json: "stem (x @ ''.json'') = (if x = [] then ''.json'' else x)"
  by (simp add: stem_def)

lemma matches_file_name: "matches_json (file_name n)"
  by (simp add: matches_json_def file_name_def)

lemma stem_file_name: "n \<noteq> [] \<Longrightarrow> stem (file_name n) = n"
  by (simp add: file_name_def stem_json)

lemma file_name_stem:
  assumes "matches_json f" and "f \<noteq> ''.json''"
  shows "file_name (stem f) = f" and "stem f \<noteq> []"
proof -
  from assms(1) obtain x where x: "f = x @ ''.json''"
    using matches_json_iff by blast
  with assms(2) have "x \<noteq> []" by auto
  with x have "stem f = x" by (simp add: stem_json)
  with x \<open>x \<noteq> []\<close> show "file_name (stem f) = f" and "stem f \<noteq> []"
    by (simp_all add: file_name_def)
qed

lemma stem_nonempty:
  assumes "matches_json f"
  shows "stem f \<noteq> []"
proof -
  from assms obtain x where x: "f = x @ ''.json''"
    using matches_json_iff by blast
  show ?thesis unfolding x stem_json by simp
qed

lemma file_name_eq_dot: "file_name n = ''.json'' \<longleftrightarrow> n = []"
  by (simp add: file_name_def)

lemma profile_names_iff:
  "n \<in> set (profile_names w)
     \<longleftrightarrow> (\<exists>f \<in> fst ` set (profile_files w). matches_json f \<and> stem f = n)"
  by (auto simp: profile_names_def)

lemma load_fails_iff:
  "(\<exists>e. load n w = Inl e)
     \<longleftrightarrow> (\<exists>c. map_of (profile_files w) (file_name n) = Some c \<and> \<not> parses c)"
  by (auto simp: load_def parses_def split: option.splits file_content.splits)

lemma load_error:
  "load n w = Inl e \<Longrightarrow> e = JSONDecodeError \<or> e = UnicodeDecodeError"
  by (auto simp: load_def split: option.splits file_content.splits)

lemma load_each_result:
  assumes "load_each w ns ps = Inr ps'"
  shows "(\<forall>n \<in> set ns. \<exists>p. load n w = Inr p \<and> map_of ps' n = Some p)
       \<and> (\<forall>n. n \<notin> set ns \<longrightarrow> map_of ps' n = map_of ps n)"
  using assms
proof (induction ns arbitrary: ps)
  case Nil
  then show ?case by simp
next
  case (Cons n ns)
  from Cons.prems obtain p where p: "load n w = Inr p"
    and rest: "load_each w ns (AList.update n p ps) = Inr ps'"
    by (auto split: sum.splits)
  note ih = Cons.IH [OF rest]
  have here: "map_of ps' n = Some p"
  proof (cases "n \<in> set ns")
    case True
    with ih p show ?thesis by auto
  next
    case False
    with ih have "map_of ps' n = map_of (AList.update n p ps) n" by simp
    then show ?thesis by (simp add: update_conv')
  qed
  have "\<forall>k. k \<notin> set (n # ns) \<longrightarrow> map_of ps' k = map_of ps k"
    using ih by (simp add: update_conv')
  with here p ih show ?case by auto
qed

lemma load_each_ok:
  assumes "\<forall>n \<in> set ns. \<not> (\<exists>e. load n w = Inl e)"
  shows "\<exists>ps'. load_each w ns ps = Inr ps'"
  using assms
proof (induction ns arbitrary: ps)
  case Nil
  show ?case by simp
next
  case (Cons n ns)
  then obtain p where "load n w = Inr p"
    by (cases "load n w") auto
  with Cons show ?case by simp
qed

lemma load_each_fails:
  assumes "\<exists>n \<in> set ns. \<exists>e. load n w = Inl e"
  shows "load_each w ns ps = Inl JSONDecodeError \<or> load_each w ns ps = Inl UnicodeDecodeError"
  using assms
proof (induction ns arbitrary: ps)
  case Nil
  then show ?case by simp
next
  case (Cons n ns)
  show ?case
  proof (cases "load n w")
    case (Inl e)
    then show ?thesis using load_error [OF Inl] by auto
  next
    case (Inr p)
    with Cons.prems have "\<exists>n \<in> set ns. \<exists>e. load n w = Inl e" by auto
    from Cons.IH [OF this] Inr show ?thesis by simp
  qed
qed

lemma bad_file_iff:
  assumes "distinct (map fst (profile_files w))"
  shows "(\<exists>n \<in> set (profile_names w). \<exists>e. load n w = Inl e)
           \<longleftrightarrow> (\<exists>e \<in> set (parsed_files w). \<not> parses (snd e))"
proof
  assume "\<exists>n \<in> set (profile_names w). \<exists>e. load n w = Inl e"
  then obtain n where n: "n \<in> set (profile_names w)" and "\<exists>e. load n w = Inl e"
    by blast
  then obtain c where c: "map_of (profile_files w) (file_name n) = Some c" "\<not> parses c"
    using load_fails_iff by blast
  from n have "n \<noteq> []"
    using profile_names_iff stem_nonempty by blast
  then have "file_name n \<noteq> ''.json''" by (simp add: file_name_eq_dot)
  moreover have "(file_name n, c) \<in> set (profile_files w)"
    using c(1) by (rule map_of_SomeD)
  ultimately have "(file_name n, c) \<in> set (parsed_files w)"
    by (simp add: parsed_files_def matches_file_name)
  with c(2) show "\<exists>e \<in> set (parsed_files w). \<not> parses (snd e)" by force
next
  assume "\<exists>e \<in> set (parsed_files w). \<not> parses (snd e)"
  then obtain f c where fc: "(f, c) \<in> set (profile_files w)" "matches_json f"
    "f \<noteq> ''.json''" "\<not> parses c"
    by (auto simp: parsed_files_def)
  have "stem f \<in> set (profile_names w)"
    using fc(1,2) profile_names_iff by force
  moreover have "map_of (profile_files w) (file_name (stem f)) = Some c"
    using assms fc(1) file_name_stem(1) [OF fc(2,3)] by simp
  ultimately show "\<exists>n \<in> set (profile_names w). \<exists>e. load n w = Inl e"
    using fc(4) load_fails_iff by blast
qed

text \<open>
  C3, as the program has it. \<^verbatim>\<open>load_profiles\<close> has no handler around
  \<^verbatim>\<open>MonitorProfile.load\<close>. It opens every file whose name matches \<^verbatim>\<open>*.json\<close>, except
  that for a file named \<^verbatim>\<open>.json\<close> it opens \<^verbatim>\<open>.json.json\<close>. A single one of the
  files it opens that does not parse makes the whole call raise (\<^verbatim>\<open>JSONDecodeError\<close>,
  or \<^verbatim>\<open>UnicodeDecodeError\<close> for bytes that are not text), and nothing is returned. When
  every file it opens parses, the call returns; every file \<^verbatim>\<open>n.json\<close> with a name
  \<^verbatim>\<open>n\<close> that is not empty is loaded as the profile \<^verbatim>\<open>n\<close> with the mapping the file
  holds; the profile \<^verbatim>\<open>default\<close> exists, empty if the directory has no file
  \<^verbatim>\<open>default.json\<close>; and a file named \<^verbatim>\<open>.json\<close> without a file \<^verbatim>\<open>.json.json\<close> gives an
  empty profile \<^verbatim>\<open>.json\<close>, whatever it holds.
\<close>

theorem load_profiles_all_or_nothing:
  assumes "distinct (map fst (profile_files w))"
  shows "((\<exists>e \<in> set (parsed_files w). \<not> parses (snd e))
            \<longrightarrow> load_profiles w init_daemon = Inl JSONDecodeError
                \<or> load_profiles w init_daemon = Inl UnicodeDecodeError)
       \<and> ((\<forall>e \<in> set (parsed_files w). parses (snd e))
            \<longrightarrow> (\<exists>d. load_profiles w init_daemon = Inr d
                  \<and> map_of (profiles d) DEFAULT_PROFILE \<noteq> None
                  \<and> (file_name DEFAULT_PROFILE \<notin> fst ` set (profile_files w)
                       \<longrightarrow> map_of (profiles d) DEFAULT_PROFILE
                             = Some (MonitorProfile DEFAULT_PROFILE))
                  \<and> (\<forall>n cs. n \<noteq> [] \<and> (file_name n, Document cs) \<in> set (profile_files w)
                       \<longrightarrow> map_of (profiles d) n = Some \<lparr>profile_name = n, configs = cs\<rparr>)
                  \<and> (''.json'' \<in> fst ` set (profile_files w)
                        \<and> ''.json.json'' \<notin> fst ` set (profile_files w)
                       \<longrightarrow> map_of (profiles d) ''.json'' = Some (MonitorProfile ''.json''))))"
proof (intro conjI impI)
  assume "\<exists>e \<in> set (parsed_files w). \<not> parses (snd e)"
  then have "\<exists>n \<in> set (profile_names w). \<exists>e. load n w = Inl e"
    using bad_file_iff [OF assms] by simp
  from load_each_fails [OF this, of "profiles init_daemon"]
  show "load_profiles w init_daemon = Inl JSONDecodeError
      \<or> load_profiles w init_daemon = Inl UnicodeDecodeError"
    by (auto simp: load_profiles_def)
next
  assume "\<forall>e \<in> set (parsed_files w). parses (snd e)"
  then have "\<forall>n \<in> set (profile_names w). \<not> (\<exists>e. load n w = Inl e)"
    using bad_file_iff [OF assms] by blast
  then obtain ps where ps: "load_each w (profile_names w) (profiles init_daemon) = Inr ps"
    using load_each_ok by blast
  note res = load_each_result [OF ps]
  define ps' where "ps' = (if map_of ps DEFAULT_PROFILE = None
                    then AList.update DEFAULT_PROFILE (MonitorProfile DEFAULT_PROFILE) ps
                    else ps)"
  define d where "d = init_daemon\<lparr>profiles := ps',
                 active_profile_name :=
                   (case active_profile_file w of
                      None \<Rightarrow> active_profile_name init_daemon
                    | Some s \<Rightarrow> py_strip s)\<rparr>"
  have ld: "load_profiles w init_daemon = Inr d"
    by (simp add: load_profiles_def ps d_def ps'_def)
  have pd: "profiles d = ps'" by (simp add: d_def)
  have keep: "\<And>n p. map_of ps n = Some p \<Longrightarrow> map_of ps' n = Some p"
  proof -
    fix n p
    assume psn: "map_of ps n = Some p"
    show "map_of ps' n = Some p"
    proof (cases "map_of ps DEFAULT_PROFILE = None")
      case True
      with psn have "n \<noteq> DEFAULT_PROFILE" by auto
      with True psn show ?thesis by (simp add: ps'_def update_conv')
    next
      case False
      then have "ps' = ps" by (simp only: ps'_def if_False)
      with psn show ?thesis by simp
    qed
  qed
  have dflt: "map_of ps' DEFAULT_PROFILE \<noteq> None"
    by (simp add: ps'_def update_conv')
  have synth: "file_name DEFAULT_PROFILE \<notin> fst ` set (profile_files w)
                \<longrightarrow> map_of ps' DEFAULT_PROFILE = Some (MonitorProfile DEFAULT_PROFILE)"
  proof
    assume absent: "file_name DEFAULT_PROFILE \<notin> fst ` set (profile_files w)"
    have "DEFAULT_PROFILE \<notin> set (profile_names w)"
    proof
      assume "DEFAULT_PROFILE \<in> set (profile_names w)"
      then obtain f where f: "f \<in> fst ` set (profile_files w)" "matches_json f"
        "stem f = DEFAULT_PROFILE"
        using profile_names_iff by blast
      then have "f \<noteq> ''.json''" by (auto simp: stem_def DEFAULT_PROFILE_def)
      from file_name_stem(1) [OF f(2) this] f(3) have "file_name DEFAULT_PROFILE = f" by simp
      with f(1) absent show False by simp
    qed
    then have "map_of ps DEFAULT_PROFILE = map_of (profiles init_daemon) DEFAULT_PROFILE"
      using res by simp
    then have "map_of ps DEFAULT_PROFILE = None" by (simp add: init_daemon_def)
    then show "map_of ps' DEFAULT_PROFILE = Some (MonitorProfile DEFAULT_PROFILE)"
      by (simp add: ps'_def update_conv')
  qed
  have files: "\<forall>n cs. n \<noteq> [] \<and> (file_name n, Document cs) \<in> set (profile_files w)
                 \<longrightarrow> map_of ps' n = Some \<lparr>profile_name = n, configs = cs\<rparr>"
  proof (intro allI impI)
    fix n cs
    assume m: "n \<noteq> [] \<and> (file_name n, Document cs) \<in> set (profile_files w)"
    then have f: "map_of (profile_files w) (file_name n) = Some (Document cs)"
      using assms by simp
    from m have "file_name n \<in> fst ` set (profile_files w)" by force
    with m have "n \<in> set (profile_names w)"
      using profile_names_iff matches_file_name stem_file_name by blast
    with res obtain p where "load n w = Inr p" and "map_of ps n = Some p" by blast
    with f have "map_of ps n = Some \<lparr>profile_name = n, configs = cs\<rparr>"
      by (simp add: load_def)
    then show "map_of ps' n = Some \<lparr>profile_name = n, configs = cs\<rparr>" by (rule keep)
  qed
  have dot: "''.json'' \<in> fst ` set (profile_files w)
               \<and> ''.json.json'' \<notin> fst ` set (profile_files w)
             \<longrightarrow> map_of ps' ''.json'' = Some (MonitorProfile ''.json'')"
  proof
    assume a: "''.json'' \<in> fst ` set (profile_files w)
               \<and> ''.json.json'' \<notin> fst ` set (profile_files w)"
    have "matches_json ''.json''" and "stem ''.json'' = ''.json''"
      by (simp_all add: matches_json_def stem_def)
    with a have "''.json'' \<in> set (profile_names w)"
      using profile_names_iff by blast
    with res obtain p where p: "load ''.json'' w = Inr p" "map_of ps ''.json'' = Some p"
      by blast
    have "map_of (profile_files w) (file_name ''.json'') = None"
      using a by (simp add: file_name_def map_of_eq_None_iff)
    with p(1) have "p = MonitorProfile ''.json''" by (simp add: load_def)
    with p(2) show "map_of ps' ''.json'' = Some (MonitorProfile ''.json'')"
      using keep by simp
  qed
  from ld dflt synth files dot pd
  show "\<exists>d. load_profiles w init_daemon = Inr d
                  \<and> map_of (profiles d) DEFAULT_PROFILE \<noteq> None
                  \<and> (file_name DEFAULT_PROFILE \<notin> fst ` set (profile_files w)
                       \<longrightarrow> map_of (profiles d) DEFAULT_PROFILE
                             = Some (MonitorProfile DEFAULT_PROFILE))
                  \<and> (\<forall>n cs. n \<noteq> [] \<and> (file_name n, Document cs) \<in> set (profile_files w)
                       \<longrightarrow> map_of (profiles d) n = Some \<lparr>profile_name = n, configs = cs\<rparr>)
                  \<and> (''.json'' \<in> fst ` set (profile_files w)
                        \<and> ''.json.json'' \<notin> fst ` set (profile_files w)
                       \<longrightarrow> map_of (profiles d) ''.json'' = Some (MonitorProfile ''.json''))"
    by auto
qed

text \<open>
  C3, as the specification states it, fails: in \<open>corrupt_store\<close> the file
  \<^verbatim>\<open>broken.json\<close> is not skipped, the load raises and the profile \<^verbatim>\<open>office\<close> is
  not returned.
\<close>

theorem load_profiles_corrupt_file_fatal:
  "load_profiles corrupt_store init_daemon = Inl JSONDecodeError"
  by (simp add: load_profiles_def profile_names_def corrupt_store_def init_daemon_def load_def
      matches_json_def stem_def file_name_def)

text \<open>
  In \<open>corrupt_store\<close> the load raises. In \<open>dot_store\<close> the file \<^verbatim>\<open>.json\<close> does not
  parse and is never opened: the load returns, with an empty profile \<^verbatim>\<open>.json\<close>.
\<close>

theorem load_profiles_all_or_nothing_witness:
  "distinct (map fst (profile_files corrupt_store))
   \<and> parsed_files corrupt_store
       = [(''office.json'', Document (configs office_profile)), (''broken.json'', Malformed)]
   \<and> \<not> parses Malformed
   \<and> (load_profiles corrupt_store init_daemon = Inl JSONDecodeError
        \<or> load_profiles corrupt_store init_daemon = Inl UnicodeDecodeError)
   \<and> distinct (map fst (profile_files dot_store))
   \<and> parsed_files dot_store = [(''office.json'', Document (configs office_profile))]
   \<and> parses (Document (configs office_profile))
   \<and> file_name DEFAULT_PROFILE \<notin> fst ` set (profile_files dot_store)
   \<and> (file_name ''office'', Document (configs office_profile)) \<in> set (profile_files dot_store)
   \<and> ''.json'' \<in> fst ` set (profile_files dot_store)
   \<and> ''.json.json'' \<notin> fst ` set (profile_files dot_store)
   \<and> (\<exists>d. load_profiles dot_store init_daemon = Inr d
         \<and> map_of (profiles d) DEFAULT_PROFILE = Some (MonitorProfile DEFAULT_PROFILE)
         \<and> map_of (profiles d) ''office''
             = Some \<lparr>profile_name = ''office'', configs = configs office_profile\<rparr>
         \<and> map_of (profiles d) ''.json'' = Some (MonitorProfile ''.json''))"
proof -
  have c1: "distinct (map fst (profile_files corrupt_store))"
    by (simp add: corrupt_store_def)
  have c2: "parsed_files corrupt_store
       = [(''office.json'', Document (configs office_profile)), (''broken.json'', Malformed)]"
    by (simp add: parsed_files_def corrupt_store_def matches_json_def)
  have c3: "\<not> parses Malformed" by (simp add: parses_def)
  have c4: "\<exists>e \<in> set (parsed_files corrupt_store). \<not> parses (snd e)"
    unfolding c2 using c3 by simp
  have o1: "distinct (map fst (profile_files dot_store))"
    by (simp add: dot_store_def)
  have o2: "parsed_files dot_store = [(''office.json'', Document (configs office_profile))]"
    by (simp add: parsed_files_def dot_store_def matches_json_def)
  have o3: "parses (Document (configs office_profile))" by (simp add: parses_def)
  have o4: "\<forall>e \<in> set (parsed_files dot_store). parses (snd e)"
    unfolding o2 using o3 by simp
  have o5: "file_name DEFAULT_PROFILE \<notin> fst ` set (profile_files dot_store)"
    by (simp add: dot_store_def file_name_def DEFAULT_PROFILE_def)
  have o6: "(file_name ''office'', Document (configs office_profile))
              \<in> set (profile_files dot_store)"
    by (simp add: dot_store_def file_name_def)
  have o7: "''.json'' \<in> fst ` set (profile_files dot_store)"
    "''.json.json'' \<notin> fst ` set (profile_files dot_store)"
    by (simp_all add: dot_store_def)
  have o8: "''office'' \<noteq> []" by simp
  from load_profiles_all_or_nothing [OF c1] c4
  have bad: "load_profiles corrupt_store init_daemon = Inl JSONDecodeError
        \<or> load_profiles corrupt_store init_daemon = Inl UnicodeDecodeError"
    by blast
  from load_profiles_all_or_nothing [OF o1] o4 o5 o6 o7 o8
  have "\<exists>d. load_profiles dot_store init_daemon = Inr d
         \<and> map_of (profiles d) DEFAULT_PROFILE = Some (MonitorProfile DEFAULT_PROFILE)
         \<and> map_of (profiles d) ''office''
             = Some \<lparr>profile_name = ''office'', configs = configs office_profile\<rparr>
         \<and> map_of (profiles d) ''.json'' = Some (MonitorProfile ''.json'')"
    by blast
  with c1 c2 c3 bad o1 o2 o3 o5 o6 o7 show ?thesis by blast
qed

lemma office_store_names:
  "profile_names office_store = [''office'']"
  by (simp add: profile_names_def office_store_def matches_json_def stem_def)

lemma office_store_loaded:
  "load_profiles office_store init_daemon =
     Inr \<lparr>profiles = [(''office'', office_profile), (''default'', MonitorProfile ''default'')],
          active_profile_name = ''home'', current_monitors = {}\<rparr>"
  by (simp add: load_profiles_def office_store_names)
     (simp add: office_store_def init_daemon_def load_def file_name_def DEFAULT_PROFILE_def
      office_profile_def py_strip_def py_isspace_def)

text \<open>
  C6. When the marker file names, after \<^verbatim>\<open>strip()\<close>, a profile that is neither
  \<^verbatim>\<open>default\<close> nor the stem of a \<^verbatim>\<open>*.json\<close> file of the directory, the daemon that
  \<^verbatim>\<open>load_profiles\<close> leaves has an active profile name that is no key of its profiles:
  \<^verbatim>\<open>find_best_config\<close> raises \<^verbatim>\<open>KeyError\<close> for every output, and a cycle that finds
  at least one output raises it too instead of using the profile \<^verbatim>\<open>default\<close>.
\<close>

theorem missing_active_profile_raises:
  assumes "load_profiles w init_daemon = Inr d"
    and "active_profile_file w = Some s"
    and "py_strip s \<notin> set (profile_names w)"
    and "py_strip s \<noteq> DEFAULT_PROFILE"
  shows "map_of (profiles d) (active_profile_name d) = None
       \<and> find_best_config d m = Inl KeyError
       \<and> (get_current_monitors (query e) = Inr (m # ms)
            \<longrightarrow> update_monitor_configs e d = Inl KeyError)"
proof -
  let ?ns = "profile_names w"
  from assms(1) obtain ps where ps: "load_each w ?ns (profiles init_daemon) = Inr ps"
    by (auto simp: load_profiles_def split: sum.splits)
  note res = load_each_result [OF ps]
  have an: "active_profile_name d = py_strip s"
    using assms(1,2) ps by (auto simp: load_profiles_def)
  have cm: "current_monitors d = {}"
    using assms(1) ps by (auto simp: load_profiles_def init_daemon_def)
  have "map_of ps (py_strip s) = map_of (profiles init_daemon) (py_strip s)"
    using res assms(3) by simp
  then have "map_of ps (py_strip s) = None" by (simp add: init_daemon_def)
  moreover have "profiles d = (if map_of ps DEFAULT_PROFILE = None
                    then AList.update DEFAULT_PROFILE (MonitorProfile DEFAULT_PROFILE) ps
                    else ps)"
    using assms(1) ps by (auto simp: load_profiles_def)
  ultimately have none: "map_of (profiles d) (active_profile_name d) = None"
    using assms(4) an by (simp add: update_conv')
  then have fb: "\<And>m. find_best_config d m = Inl KeyError"
    by (simp add: find_best_config_def)
  have "get_current_monitors (query e) = Inr (m # ms)
            \<longrightarrow> update_monitor_configs e d = Inl KeyError"
  proof
    assume q: "get_current_monitors (query e) = Inr (m # ms)"
    show "update_monitor_configs e d = Inl KeyError"
    proof (cases "name_set (m # ms)")
      case (Inl x)
      then have "x = KeyError"
        by (induction ms) (auto split: option.splits sum.splits)
      with Inl q show ?thesis by (simp add: update_monitor_configs_def)
    next
      case (Inr names)
      then have "names \<noteq> {}" by (auto split: option.splits sum.splits)
      with Inr q cm fb show ?thesis by (simp add: update_monitor_configs_def)
    qed
  qed
  with none fb show ?thesis by simp
qed

text \<open>The state is reached from \<open>office_store\<close>, whose marker reads \<^verbatim>\<open>home\<close>.\<close>

theorem missing_active_profile_raises_witness:
  "load_profiles office_store init_daemon =
     Inr \<lparr>profiles = [(''office'', office_profile), (''default'', MonitorProfile ''default'')],
          active_profile_name = ''home'', current_monitors = {}\<rparr>
   \<and> active_profile_file office_store = Some (''home'' @ [CHR 0x0A])
   \<and> profile_names office_store = [''office'']
   \<and> py_strip (''home'' @ [CHR 0x0A]) \<notin> set (profile_names office_store)
   \<and> py_strip (''home'' @ [CHR 0x0A]) \<noteq> DEFAULT_PROFILE
   \<and> get_current_monitors (query first_fails) = Inr [dell_monitor, hdmi_monitor, lg_monitor]
   \<and> find_best_config
        \<lparr>profiles = [(''office'', office_profile), (''default'', MonitorProfile ''default'')],
         active_profile_name = ''home'', current_monitors = {}\<rparr> dell_monitor = Inl KeyError
   \<and> update_monitor_configs first_fails
        \<lparr>profiles = [(''office'', office_profile), (''default'', MonitorProfile ''default'')],
         active_profile_name = ''home'', current_monitors = {}\<rparr> = Inl KeyError"
proof -
  have h2: "active_profile_file office_store = Some (''home'' @ [CHR 0x0A])"
    by (simp add: office_store_def)
  have h3: "py_strip (''home'' @ [CHR 0x0A]) \<notin> set (profile_names office_store)"
    by (simp add: office_store_names py_strip_def py_isspace_def)
  have h4: "py_strip (''home'' @ [CHR 0x0A]) \<noteq> DEFAULT_PROFILE"
    by (simp add: DEFAULT_PROFILE_def py_strip_def py_isspace_def)
  from missing_active_profile_raises
         [OF office_store_loaded h2 h3 h4, of dell_monitor first_fails
             "[hdmi_monitor, lg_monitor]"]
  show ?thesis
    using office_store_loaded office_store_names h2 h3 h4 first_fails_monitors by blast
qed

subsection \<open>Querying the compositor\<close>

lemma get_current_monitors_failed_exit:
  "status \<noteq> 0 \<Longrightarrow> get_current_monitors (Exited status out) = Inr []"
  by (simp add: get_current_monitors_def)

text \<open>
  C4 does not hold of the program. The handler of line 85 catches
  \<^verbatim>\<open>CalledProcessError\<close> only: when \<^verbatim>\<open>swaymsg\<close> exits with status 0 and has printed
  something that is not JSON, \<^verbatim>\<open>json.loads\<close> raises \<^verbatim>\<open>JSONDecodeError\<close> inside the
  \<^verbatim>\<open>try\<close> block and \<^verbatim>\<open>get_current_monitors\<close> passes it to its caller.
\<close>

theorem get_current_monitors_malformed_output:
  "get_current_monitors (Exited 0 Garbled) = Inl JSONDecodeError"
  by (simp add: get_current_monitors_def)

subsection \<open>Saving\<close>

text \<open>
  C9, as the program has it. \<^verbatim>\<open>MonitorProfile.save\<close> writes the profile file in
  place: there is no temporary file and no rename. After \<^verbatim>\<open>open(..., 'w')\<close> the file
  is truncated, and a reader that loads the profile at that moment gets
  \<^verbatim>\<open>JSONDecodeError\<close>; when \<^verbatim>\<open>save\<close> has returned, the file holds the mapping of the
  profile, loading it gives the profile back, and no other file and not the marker
  has changed.
\<close>

theorem save_in_place:
  "save_steps p w = [save_steps p w ! 0, save p w]
   \<and> map_of (profile_files (save_steps p w ! 0))
       = (map_of (profile_files w))(file_name (profile_name p) \<mapsto> Malformed)
   \<and> load (profile_name p) (save_steps p w ! 0) = Inl JSONDecodeError
   \<and> map_of (profile_files (save p w))
       = (map_of (profile_files w))(file_name (profile_name p) \<mapsto> Document (configs p))
   \<and> load (profile_name p) (save p w) = Inr p
   \<and> active_profile_file (save p w) = active_profile_file w"
  by (simp add: save_def save_steps_def load_def update_conv')

text \<open>
  C9, as the specification states it, fails: while the profile \<^verbatim>\<open>office\<close> is saved over
  its own readable file, a reader finds a file that does not parse.
\<close>

theorem save_reader_sees_truncated_file:
  "load ''office'' office_store = Inr office_profile
   \<and> load ''office'' (save_steps office_profile office_store ! 0) = Inl JSONDecodeError"
  by (simp add: save_steps_def load_def file_name_def office_store_def office_profile_def)

text \<open>
  The dictionary that \<^verbatim>\<open>load_profiles\<close> builds has each key once and each profile under
  its own name, and \<^verbatim>\<open>save_current_setup\<close> keeps it so: the states of the running daemon
  satisfy the hypotheses on the dictionary made in this theory.
\<close>

lemma load_named:
  "load n w = Inr p \<Longrightarrow> profile_name p = n"
  by (auto simp: load_def MonitorProfile_def split: option.splits file_content.splits)

lemma load_each_invariant:
  assumes "load_each w ns ps = Inr ps'"
    and "distinct (map fst ps)"
    and "\<forall>n p. map_of ps n = Some p \<longrightarrow> profile_name p = n"
  shows "distinct (map fst ps') \<and> (\<forall>n p. map_of ps' n = Some p \<longrightarrow> profile_name p = n)"
  using assms
proof (induction ns arbitrary: ps)
  case Nil
  then show ?case by simp
next
  case (Cons k ns)
  from Cons.prems(1) obtain q where q: "load k w = Inr q"
    and rest: "load_each w ns (AList.update k q ps) = Inr ps'"
    by (auto split: sum.splits)
  have "distinct (map fst (AList.update k q ps))"
    using Cons.prems(2) by (rule distinct_update)
  moreover have "\<forall>n p. map_of (AList.update k q ps) n = Some p \<longrightarrow> profile_name p = n"
    using Cons.prems(3) load_named [OF q] by (simp add: update_conv')
  ultimately show ?case
    using Cons.IH [OF rest] by blast
qed

lemma load_profiles_invariant:
  assumes "load_profiles w init_daemon = Inr d"
  shows "distinct (map fst (profiles d)) \<and> named_by_key d"
proof -
  from assms obtain ps where
    ps: "load_each w (profile_names w) (profiles init_daemon) = Inr ps"
    by (auto simp: load_profiles_def split: sum.splits)
  have inv: "distinct (map fst ps) \<and> (\<forall>n p. map_of ps n = Some p \<longrightarrow> profile_name p = n)"
    by (rule load_each_invariant [OF ps]) (simp_all add: init_daemon_def)
  have pd: "profiles d = (if map_of ps DEFAULT_PROFILE = None
                    then AList.update DEFAULT_PROFILE (MonitorProfile DEFAULT_PROFILE) ps
                    else ps)"
    using assms ps by (auto simp: load_profiles_def)
  show ?thesis
  proof (cases "map_of ps DEFAULT_PROFILE = None")
    case True
    then have "profiles d = AList.update DEFAULT_PROFILE (MonitorProfile DEFAULT_PROFILE) ps"
      using pd by simp
    with inv show ?thesis
      by (simp add: named_by_key_def update_conv' distinct_update MonitorProfile_def)
  next
    case False
    then have "profiles d = ps" using pd by (simp only: if_False)
    with inv show ?thesis by (simp add: named_by_key_def)
  qed
qed

lemma save_current_setup_invariant:
  assumes "save_current_setup q arg d w = Inr (d', w')"
    and "distinct (map fst (profiles d))" and "named_by_key d"
  shows "distinct (map fst (profiles d')) \<and> named_by_key d'"
proof -
  define d1 where "d1 = set_active arg d"
  have pr: "profiles d1 = profiles d"
    by (simp add: d1_def set_active_def split: option.splits)
  have nm: "profile_name (profile_to_save d1) = active_profile_name d1"
    using assms(3) by (simp add: profile_to_save_def named_by_key_def pr MonitorProfile_def
        split: option.splits)
  from assms(1) obtain cs where
    "d' = d1\<lparr>profiles := AList.update (active_profile_name d1)
                ((profile_to_save d1)\<lparr>configs := cs\<rparr>) (profiles d1)\<rparr>"
    by (auto simp: save_current_setup_def Let_def d1_def split: sum.splits)
  with assms(2,3) nm pr show ?thesis
    by (simp add: named_by_key_def update_conv' distinct_update)
qed

text \<open>
  C7, as the specification states it, fails for an output without a serial: the output
  \<^verbatim>\<open>HDMI-A-1\<close> of model ACME is recorded under \<^verbatim>\<open>ACME\<close> and not under \<^verbatim>\<open>ACME_\<close>.
\<close>

theorem save_current_setup_empty_serial:
  "(case save_current_setup (Exited 0 (Outputs [hdmi_monitor])) None two_profiles office_store of
   Inl e \<Rightarrow> False
 | Inr (d', w') \<Rightarrow> (case map_of (profiles d') ''default'' of None \<Rightarrow> False
      | Some p \<Rightarrow> configs p ''ACME'' \<noteq> None \<and> configs p ''ACME_'' = None))"
  by (simp add: save_current_setup_def set_active_def get_current_monitors_def two_profiles_def
      hdmi_monitor_def capture_def get_str_def default_profile_def profile_to_save_def Let_def)

lemma snapshot_step:
  assumes "snapshot (m # ms) cs = Inr cs'"
  shows "\<exists>cs1. snapshot ms cs1 = Inr cs'
           \<and> (\<forall>k. k \<notin> set (keys_written m) \<longrightarrow> cs1 k = cs k)
           \<and> (\<forall>k \<in> set (keys_written m).
                 \<exists>c. capture m (get_str (model m)) = Inr c \<and> cs1 k = Some c)"
proof (cases "get_str (model m) = []")
  case True
  with assms show ?thesis by (auto simp: keys_written_def)
next
  case False
  with assms obtain c where c: "capture m (get_str (model m)) = Inr c"
    by (auto split: sum.splits)
  show ?thesis
  proof (cases "get_str (serial m) = []")
    case True
    with False c assms
    have "snapshot ms (cs(get_str (model m) \<mapsto> c)) = Inr cs'" by simp
    with True False c show ?thesis
      by (intro exI [of _ "cs(get_str (model m) \<mapsto> c)"]) (simp add: keys_written_def)
  next
    case nonempty: False
    let ?cs1 = "(cs(get_str (model m) \<mapsto> c))(get_str (model m) @ ''_'' @ get_str (serial m) \<mapsto> c)"
    from False nonempty c assms have "snapshot ms ?cs1 = Inr cs'" by simp
    with False nonempty c show ?thesis
      by (intro exI [of _ ?cs1]) (simp add: keys_written_def)
  qed
qed

lemma snapshot_untouched:
  assumes "snapshot ms cs = Inr cs'" and "\<forall>m \<in> set ms. k \<notin> set (keys_written m)"
  shows "cs' k = cs k"
  using assms
proof (induction ms arbitrary: cs)
  case Nil
  then show ?case by simp
next
  case (Cons m ms)
  from snapshot_step [OF Cons.prems(1)] obtain cs1 where
    "snapshot ms cs1 = Inr cs'" and "\<forall>k. k \<notin> set (keys_written m) \<longrightarrow> cs1 k = cs k"
    by blast
  with Cons show ?case by simp
qed

lemma snapshot_last_writer:
  assumes "snapshot (pre @ m # post) cs = Inr cs'"
    and "k \<in> set (keys_written m)"
    and "\<forall>m' \<in> set post. k \<notin> set (keys_written m')"
  shows "\<exists>c. capture m (get_str (model m)) = Inr c \<and> cs' k = Some c"
  using assms(1)
proof (induction pre arbitrary: cs)
  case Nil
  then have "snapshot (m # post) cs = Inr cs'" by simp
  from snapshot_step [OF this] obtain cs1 where cs1: "snapshot post cs1 = Inr cs'"
    "\<forall>k \<in> set (keys_written m). \<exists>c. capture m (get_str (model m)) = Inr c \<and> cs1 k = Some c"
    by blast
  from snapshot_untouched [OF cs1(1) assms(3)] have "cs' k = cs1 k" .
  with cs1(2) assms(2) show ?case by auto
next
  case (Cons a pre)
  then have "snapshot (a # (pre @ m # post)) cs = Inr cs'" by simp
  from snapshot_step [OF this] obtain cs1 where "snapshot (pre @ m # post) cs1 = Inr cs'"
    by blast
  then show ?case by (rule Cons.IH)
qed

lemma snapshot_total:
  assumes "\<forall>m \<in> set ms. get_str (model m) \<noteq> [] \<longrightarrow> rect m \<noteq> None \<and> current_mode m \<noteq> None"
  shows "\<exists>cs'. snapshot ms cs = Inr cs'"
  using assms
proof (induction ms arbitrary: cs)
  case Nil
  show ?case by simp
next
  case (Cons m ms)
  show ?case
  proof (cases "get_str (model m) = []")
    case True
    with Cons show ?thesis by simp
  next
    case False
    with Cons.prems obtain c where "capture m (get_str (model m)) = Inr c"
      by (auto simp: capture_def)
    with False Cons show ?thesis by simp
  qed
qed

lemma save_current_setup_unfold:
  assumes "get_current_monitors q = Inr ms"
    and "snapshot ms (configs (profile_to_save (set_active arg d))) = Inr cs"
  shows "save_current_setup q arg d w =
     Inr ((set_active arg d)\<lparr>profiles :=
             AList.update (active_profile_name (set_active arg d))
               ((profile_to_save (set_active arg d))\<lparr>configs := cs\<rparr>)
               (profiles (set_active arg d))\<rparr>,
          save_active_profile
            ((set_active arg d)\<lparr>profiles :=
               AList.update (active_profile_name (set_active arg d))
                 ((profile_to_save (set_active arg d))\<lparr>configs := cs\<rparr>)
                 (profiles (set_active arg d))\<rparr>)
            (save ((profile_to_save (set_active arg d))\<lparr>configs := cs\<rparr>) w))"
  using assms by (simp add: save_current_setup_def Let_def)

text \<open>
  C7, as the program has it. When the query returns and every output with a non-empty
  model has \<^verbatim>\<open>rect\<close> and \<^verbatim>\<open>current_mode\<close>, \<^verbatim>\<open>save_current_setup\<close> returns; the
  active profile is then in the dictionary, its mapping is in its file and the marker
  file holds the active name. An output with a non-empty model is recorded under its
  model, and under \<^verbatim>\<open>"{model}_{serial}"\<close> only when its serial is not empty
  (\<open>keys_written\<close>; an output with an empty model writes nothing): each such key holds
  the captured configuration of the last output of the list that writes it, and every
  other key of the profile is as it was.
\<close>

theorem save_current_setup_records:
  assumes "get_current_monitors q = Inr ms"
    and "\<forall>m \<in> set ms. get_str (model m) \<noteq> [] \<longrightarrow> rect m \<noteq> None \<and> current_mode m \<noteq> None"
  shows "\<exists>d' w' p'. save_current_setup q arg d w = Inr (d', w')
      \<and> active_profile_name d' = active_profile_name (set_active arg d)
      \<and> map_of (profiles d') (active_profile_name d') = Some p'
      \<and> map_of (profile_files w') (file_name (profile_name p')) = Some (Document (configs p'))
      \<and> active_profile_file w' = Some (active_profile_name d')
      \<and> (\<forall>pre m post k.
            ms = pre @ m # post \<and> k \<in> set (keys_written m)
            \<and> (\<forall>m' \<in> set post. k \<notin> set (keys_written m'))
            \<longrightarrow> (\<exists>c. capture m (get_str (model m)) = Inr c \<and> configs p' k = Some c))
      \<and> (\<forall>k. (\<forall>m \<in> set ms. k \<notin> set (keys_written m))
            \<longrightarrow> configs p' k = configs (profile_to_save (set_active arg d)) k)"
proof -
  define d1 where "d1 = set_active arg d"
  define p where "p = profile_to_save d1"
  obtain cs where cs: "snapshot ms (configs p) = Inr cs"
    using snapshot_total [OF assms(2)] by blast
  define p' where "p' = p\<lparr>configs := cs\<rparr>"
  define d' where "d' = d1\<lparr>profiles := AList.update (active_profile_name d1) p' (profiles d1)\<rparr>"
  define w' where "w' = save_active_profile d' (save p' w)"
  have cs0: "snapshot ms (configs (profile_to_save (set_active arg d))) = Inr cs"
    using cs by (simp add: p_def d1_def)
  have run: "save_current_setup q arg d w = Inr (d', w')"
    unfolding w'_def d'_def p'_def p_def d1_def
    by (rule save_current_setup_unfold [OF assms(1) cs0])
  have a: "active_profile_name d' = active_profile_name d1"
    by (simp add: d'_def)
  have b: "map_of (profiles d') (active_profile_name d') = Some p'"
    by (simp add: d'_def update_conv')
  have c: "map_of (profile_files w') (file_name (profile_name p')) = Some (Document (configs p'))"
    by (simp add: w'_def save_active_profile_def save_def save_steps_def update_conv')
  have m: "active_profile_file w' = Some (active_profile_name d')"
    by (simp add: w'_def save_active_profile_def)
  have lw: "\<forall>pre m post k.
            ms = pre @ m # post \<and> k \<in> set (keys_written m)
            \<and> (\<forall>m' \<in> set post. k \<notin> set (keys_written m'))
            \<longrightarrow> (\<exists>c. capture m (get_str (model m)) = Inr c \<and> configs p' k = Some c)"
  proof (intro allI impI)
    fix pre m post k
    assume h: "ms = pre @ m # post \<and> k \<in> set (keys_written m)
            \<and> (\<forall>m' \<in> set post. k \<notin> set (keys_written m'))"
    then have "snapshot (pre @ m # post) (configs p) = Inr cs"
      using cs by simp
    from snapshot_last_writer [OF this] h
    show "\<exists>c. capture m (get_str (model m)) = Inr c \<and> configs p' k = Some c"
      by (simp add: p'_def)
  qed
  have un: "\<forall>k. (\<forall>m \<in> set ms. k \<notin> set (keys_written m))
            \<longrightarrow> configs p' k = configs (profile_to_save (set_active arg d)) k"
    using snapshot_untouched [OF cs] by (simp add: p'_def p_def d1_def)
  from run a b c m lw un show ?thesis
    unfolding d1_def by blast
qed

lemma str_int_samples:
  "str_int 0 = ''0''" "str_int 1920 = ''1920''" "str_int 1080 = ''1080''"
  by (simp_all add: str_int_def str_nat.simps digit_char_def)

text \<open>
  C8. For an output with a non-empty model, position (0,0), mode 1920x1080, scale 1.0,
  transform normal and not disabled, \<^verbatim>\<open>save_current_setup("home")\<close> followed by
  \<^verbatim>\<open>MonitorProfile.load("home")\<close> gives, under the model, the configuration captured
  at save time, field for field; it is also the one the daemon keeps in memory. The
  profiles of the daemon carry the names they are stored under (\<open>named_by_key\<close>), so
  that a profile \<^verbatim>\<open>home\<close> is written to the file that is read back.
\<close>

theorem save_load_round_trip:
  assumes "model m = Some mdl" and "mdl \<noteq> []"
    and "rect m = Some (0, 0)" and "current_mode m = Some (1920, 1080)"
    and "scale m = Some (Num ''1.0'')" and "transform m = Some ''normal''"
    and "disabled m = Some False"
    and "named_by_key d"
  shows "\<exists>d' w' p c. save_current_setup (Exited 0 (Outputs [m])) (Some ''home'') d w = Inr (d', w')
      \<and> capture m mdl = Inr c
      \<and> c = \<lparr>cfg_model = Some mdl, position = Some ''0,0'', resolution = Some ''1920x1080'',
              cfg_scale = Some (Num ''1.0''), cfg_transform = Some ''normal'',
              enabled = Some True\<rparr>
      \<and> map_of (profiles d') ''home'' = Some p
      \<and> load ''home'' w' = Inr p
      \<and> configs p mdl = Some c"
proof -
  define c where "c = \<lparr>cfg_model = Some mdl, position = Some ''0,0'',
      resolution = Some ''1920x1080'', cfg_scale = Some (Num ''1.0''),
      cfg_transform = Some ''normal'', enabled = Some True\<rparr>"
  define d1 where "d1 = set_active (Some ''home'') d"
  define p0 where "p0 = profile_to_save d1"
  have an: "active_profile_name d1 = ''home''" and pr: "profiles d1 = profiles d"
    by (simp_all add: d1_def set_active_def)
  have nm: "profile_name p0 = ''home''"
    using assms(8) by (simp add: p0_def profile_to_save_def named_by_key_def an pr
        MonitorProfile_def split: option.splits)
  have cap: "capture m mdl = Inr c"
    by (simp add: capture_def assms c_def str_int_samples)
  obtain cs where cs: "snapshot [m] (configs p0) = Inr cs" and hit: "cs mdl = Some c"
    using assms(1,2) cap by (cases "get_str (serial m) = []") (simp_all add: get_str_def)
  define p where "p = p0\<lparr>configs := cs\<rparr>"
  define d' where "d' = d1\<lparr>profiles := AList.update (active_profile_name d1) p (profiles d1)\<rparr>"
  define w' where "w' = save_active_profile d' (save p w)"
  have q: "get_current_monitors (Exited 0 (Outputs [m])) = Inr [m]"
    by (simp add: get_current_monitors_def)
  have cs0: "snapshot [m] (configs (profile_to_save (set_active (Some ''home'') d))) = Inr cs"
    using cs by (simp only: p0_def d1_def)
  have run: "save_current_setup (Exited 0 (Outputs [m])) (Some ''home'') d w = Inr (d', w')"
    unfolding w'_def d'_def p_def p0_def d1_def
    by (rule save_current_setup_unfold [OF q cs0])
  have mem: "map_of (profiles d') ''home'' = Some p"
    by (simp add: d'_def update_conv' an)
  have "load ''home'' w' = Inr \<lparr>profile_name = ''home'', configs = configs p\<rparr>"
    using nm by (simp add: w'_def save_active_profile_def save_def save_steps_def load_def
        update_conv' p_def)
  also have "\<lparr>profile_name = ''home'', configs = configs p\<rparr> = p"
    using nm by (simp add: p_def)
  finally have disk: "load ''home'' w' = Inr p" .
  have "configs p mdl = Some c" by (simp add: p_def hit)
  with run cap mem disk show ?thesis
    unfolding c_def by blast
qed

theorem save_current_setup_records_witness:
  "get_current_monitors (Exited 0 (Outputs [dell_monitor, hdmi_monitor]))
     = Inr [dell_monitor, hdmi_monitor]
   \<and> rect dell_monitor = Some (0, 0) \<and> current_mode dell_monitor = Some (1920, 1080)
   \<and> rect hdmi_monitor = Some (0, 0) \<and> current_mode hdmi_monitor = Some (1280, 720)
   \<and> keys_written dell_monitor = [''DELL'', ''DELL_ABC123'']
   \<and> keys_written hdmi_monitor = [''ACME'']
   \<and> (\<exists>d' w' p'.
         save_current_setup (Exited 0 (Outputs [dell_monitor, hdmi_monitor])) None
           two_profiles office_store = Inr (d', w')
         \<and> map_of (profiles d') ''default'' = Some p'
         \<and> map_of (profile_files w') (file_name (profile_name p')) = Some (Document (configs p'))
         \<and> active_profile_file w' = Some ''default''
         \<and> configs p' ''DELL'' = Some full_hd
         \<and> configs p' ''DELL_ABC123'' = Some full_hd
         \<and> configs p' ''ACME_'' = None)"
proof -
  let ?ms = "[dell_monitor, hdmi_monitor]"
  have h1: "get_current_monitors (Exited 0 (Outputs ?ms)) = Inr ?ms"
    by (simp add: get_current_monitors_def)
  have h2: "\<forall>m \<in> set ?ms.
         get_str (model m) \<noteq> [] \<longrightarrow> rect m \<noteq> None \<and> current_mode m \<noteq> None"
    by (simp add: dell_monitor_def hdmi_monitor_def)
  have kd: "keys_written dell_monitor = [''DELL'', ''DELL_ABC123'']"
    by (simp add: keys_written_def dell_monitor_def get_str_def)
  have kh: "keys_written hdmi_monitor = [''ACME'']"
    by (simp add: keys_written_def hdmi_monitor_def get_str_def)
  have cap: "capture dell_monitor (get_str (model dell_monitor)) = Inr full_hd"
    by (simp add: capture_def dell_monitor_def get_str_def full_hd_def str_int_samples)
  have act: "active_profile_name (set_active None two_profiles) = ''default''"
    by (simp add: set_active_def two_profiles_def)
  have old: "configs (profile_to_save (set_active None two_profiles)) ''ACME_'' = None"
    by (simp add: set_active_def two_profiles_def profile_to_save_def default_profile_def)
  from save_current_setup_records [OF h1 h2, of None two_profiles office_store]
  obtain d' w' p' where r:
    "save_current_setup (Exited 0 (Outputs ?ms)) None two_profiles office_store = Inr (d', w')"
    "active_profile_name d' = active_profile_name (set_active None two_profiles)"
    "map_of (profiles d') (active_profile_name d') = Some p'"
    "map_of (profile_files w') (file_name (profile_name p')) = Some (Document (configs p'))"
    "active_profile_file w' = Some (active_profile_name d')"
    "\<forall>pre m post k.
        ?ms = pre @ m # post \<and> k \<in> set (keys_written m)
        \<and> (\<forall>m' \<in> set post. k \<notin> set (keys_written m'))
        \<longrightarrow> (\<exists>c. capture m (get_str (model m)) = Inr c \<and> configs p' k = Some c)"
    "\<forall>k. (\<forall>m \<in> set ?ms. k \<notin> set (keys_written m))
        \<longrightarrow> configs p' k = configs (profile_to_save (set_active None two_profiles)) k"
    by blast
  have split: "?ms = [] @ dell_monitor # [hdmi_monitor]" by simp
  have "\<exists>c. capture dell_monitor (get_str (model dell_monitor)) = Inr c
             \<and> configs p' ''DELL'' = Some c"
    using r(6) [rule_format, of "[]" dell_monitor "[hdmi_monitor]" "''DELL''"] split kd kh
    by simp
  then have k1: "configs p' ''DELL'' = Some full_hd" using cap by simp
  have "\<exists>c. capture dell_monitor (get_str (model dell_monitor)) = Inr c
             \<and> configs p' ''DELL_ABC123'' = Some c"
    using r(6) [rule_format, of "[]" dell_monitor "[hdmi_monitor]" "''DELL_ABC123''"] split kd kh
    by simp
  then have k2: "configs p' ''DELL_ABC123'' = Some full_hd" using cap by simp
  have "\<forall>m \<in> set ?ms. ''ACME_'' \<notin> set (keys_written m)"
    by (simp add: kd kh)
  then have k3: "configs p' ''ACME_'' = None"
    using r(7) old by simp
  have geo: "rect dell_monitor = Some (0, 0)" "current_mode dell_monitor = Some (1920, 1080)"
    "rect hdmi_monitor = Some (0, 0)" "current_mode hdmi_monitor = Some (1280, 720)"
    by (simp_all add: dell_monitor_def hdmi_monitor_def)
  from r(1-5) act k1 k2 k3 h1 geo kd kh show ?thesis
    by (intro conjI exI [of _ d'] exI [of _ w'] exI [of _ p']) simp_all
qed

theorem save_load_round_trip_witness:
  "model dell_monitor = Some ''DELL'' \<and> ''DELL'' \<noteq> []
   \<and> rect dell_monitor = Some (0, 0) \<and> current_mode dell_monitor = Some (1920, 1080)
   \<and> scale dell_monitor = Some (Num ''1.0'') \<and> transform dell_monitor = Some ''normal''
   \<and> disabled dell_monitor = Some False
   \<and> map_of (profiles home_daemon) ''home''
       = Some \<lparr>profile_name = ''home'', configs = [''DELL'' \<mapsto> switched_off]\<rparr>
   \<and> named_by_key home_daemon
   \<and> (\<exists>d' w' p.
         save_current_setup (Exited 0 (Outputs [dell_monitor])) (Some ''home'')
           home_daemon office_store = Inr (d', w')
         \<and> capture dell_monitor ''DELL'' = Inr full_hd
         \<and> map_of (profiles d') ''home'' = Some p
         \<and> load ''home'' w' = Inr p
         \<and> configs p ''DELL'' = Some full_hd)"
proof -
  have h: "model dell_monitor = Some ''DELL''" "''DELL'' \<noteq> []"
    "rect dell_monitor = Some (0, 0)" "current_mode dell_monitor = Some (1920, 1080)"
    "scale dell_monitor = Some (Num ''1.0'')" "transform dell_monitor = Some ''normal''"
    "disabled dell_monitor = Some False"
    by (simp_all add: dell_monitor_def)
  have old: "map_of (profiles home_daemon) ''home''
       = Some \<lparr>profile_name = ''home'', configs = [''DELL'' \<mapsto> switched_off]\<rparr>"
    by (simp add: home_daemon_def)
  have h8: "named_by_key home_daemon"
    by (simp add: named_by_key_def home_daemon_def default_profile_def)
  from save_load_round_trip [OF h h8, of office_store]
  have "\<exists>d' w' p.
         save_current_setup (Exited 0 (Outputs [dell_monitor])) (Some ''home'')
           home_daemon office_store = Inr (d', w')
         \<and> capture dell_monitor ''DELL'' = Inr full_hd
         \<and> map_of (profiles d') ''home'' = Some p
         \<and> load ''home'' w' = Inr p
         \<and> configs p ''DELL'' = Some full_hd"
    unfolding full_hd_def by blast
  with h old h8 show ?thesis by blast
qed

end
